theory Spec2Isabelle
  imports Complex_Main "HOL-Library.AList"
begin

section \<open>Python values\<close>

text \<open>
  A Python \<open>str\<close> is a \<^typ>\<open>string\<close>: the list of the bytes of its UTF-8 encoding. The
  literals of the source that hold a symbol outside ASCII are written out byte by byte
  below. Substring search agrees on bytes and on code points; \<open>lower\<close>, \<open>split\<close> and
  \<open>len\<close> are modelled for ASCII text, which is what concept names, questions and
  situations are taken to be.

  A Python \<open>float\<close> is a \<^typ>\<open>rat\<close>: a decimal literal of the source denotes its exact
  value and comparisons are exact.

  A \<open>dict\<close> is an association list in insertion order; assigning to a key that is present
  keeps its position (\<^const>\<open>AList.update\<close>).
\<close>

text \<open>The exceptions a call can end with.\<close>

datatype error =
    TypeError
  | ValueError
  | KeyError
  | IndexError
  | NetworkXNoPath
  | NodeNotFound string

definition lower_char :: "char \<Rightarrow> char" where
  "lower_char c =
     (case map_of (zip ''ABCDEFGHIJKLMNOPQRSTUVWXYZ'' ''abcdefghijklmnopqrstuvwxyz'') c of
        None \<Rightarrow> c
      | Some l \<Rightarrow> l)"

definition lower :: "string \<Rightarrow> string" where
  "lower s = map lower_char s"

fun starts_with :: "string \<Rightarrow> string \<Rightarrow> bool" where
  "starts_with [] s = True"
| "starts_with (p # ps) [] = False"
| "starts_with (p # ps) (c # cs) = (p = c \<and> starts_with ps cs)"

text \<open>\<open>str_in w s\<close> is Python's \<open>w in s\<close> on strings.\<close>

fun str_in :: "string \<Rightarrow> string \<Rightarrow> bool" where
  "str_in w [] = (w = [])"
| "str_in w (c # cs) = (starts_with w (c # cs) \<or> str_in w cs)"

definition is_space :: "char \<Rightarrow> bool" where
  "is_space c = (c \<in> set [CHR 0x09, CHR 0x0A, CHR 0x0B, CHR 0x0C, CHR 0x0D,
                           CHR 0x1C, CHR 0x1D, CHR 0x1E, CHR 0x1F, CHR 0x20])"

text \<open>\<open>s.split()\<close>: the maximal runs of characters that are not whitespace.\<close>

fun split_acc :: "string \<Rightarrow> string \<Rightarrow> string list" where
  "split_acc cur [] = (if cur = [] then [] else [cur])"
| "split_acc cur (c # cs) =
     (if is_space c then (if cur = [] then split_acc [] cs else cur # split_acc [] cs)
      else split_acc (cur @ [c]) cs)"

definition split_ws :: "string \<Rightarrow> string list" where
  "split_ws s = split_acc [] s"

text \<open>\<open>s.replace(c, '')\<close> for a single character \<open>c\<close>.\<close>

definition remove_char :: "char \<Rightarrow> string \<Rightarrow> string" where
  "remove_char c s = filter (\<lambda>x. x \<noteq> c) s"

text \<open>\<open>sep.join(parts)\<close>.\<close>

fun join :: "string \<Rightarrow> string list \<Rightarrow> string" where
  "join sep [] = []"
| "join sep [p] = p"
| "join sep (p # q # ps) = p @ sep @ join sep (q # ps)"

definition digit_char :: "nat \<Rightarrow> char" where
  "digit_char d = ''0123456789'' ! (d mod 10)"

text \<open>\<open>str(n)\<close> for a natural number.\<close>

fun str_nat :: "nat \<Rightarrow> string" where
  "str_nat n = (if n < 10 then [digit_char n] else str_nat (n div 10) @ [digit_char (n mod 10)])"

declare str_nat.simps [simp del]

text \<open>\<open>c * n\<close> for a string \<open>c\<close> and an integer \<open>n\<close>: empty when \<open>n \<le> 0\<close>.\<close>

definition str_times :: "string \<Rightarrow> int \<Rightarrow> string" where
  "str_times c n = concat (replicate (nat n) c)"

text \<open>The format \<open>{s:<20}\<close>: pad with spaces on the right up to a given width.\<close>

definition ljust :: "nat \<Rightarrow> string \<Rightarrow> string" where
  "ljust w s = s @ replicate (w - length s) CHR '' ''"

text \<open>\<open>int(x)\<close> for a float: truncation towards zero.\<close>

definition trunc :: "rat \<Rightarrow> int" where
  "trunc x = (if 0 \<le> x then \<lfloor>x\<rfloor> else \<lceil>x\<rceil>)"

text \<open>The format \<open>{x:.2f}\<close>: two decimals, the exact value rounded half to even.\<close>

definition round_half_even :: "rat \<Rightarrow> int" where
  "round_half_even x =
     (let f = \<lfloor>x\<rfloor>; d = x - of_int f
      in if d < 1 / 2 then f else if 1 / 2 < d then f + 1 else if even f then f else f + 1)"

definition fmt2f :: "rat \<Rightarrow> string" where
  "fmt2f x =
     (let n = nat (round_half_even (\<bar>x\<bar> * 100))
      in (if x < 0 then ''-'' else []) @ str_nat (n div 100) @ ''.''
         @ [digit_char (n mod 100 div 10), digit_char (n mod 10)])"

subsection \<open>Symbols of the source outside ASCII\<close>

definition check_mark :: string where
  "check_mark = [CHR 0xE2, CHR 0x9C, CHR 0x93]"

definition warning_sign :: string where
  "warning_sign = [CHR 0xE2, CHR 0x9A, CHR 0xA0]"

definition bullet :: string where
  "bullet = [CHR 0xE2, CHR 0x80, CHR 0xA2]"

definition right_arrow :: string where
  "right_arrow = [CHR 0xE2, CHR 0x86, CHR 0x92]"

definition book_sign :: string where
  "book_sign = [CHR 0xF0, CHR 0x9F, CHR 0x93, CHR 0x96]"

definition link_sign :: string where
  "link_sign = [CHR 0xF0, CHR 0x9F, CHR 0x94, CHR 0x97]"

definition question_sign :: string where
  "question_sign = [CHR 0xE2, CHR 0x9D, CHR 0x93]"

definition dash_sign :: string where
  "dash_sign = [CHR 0xF0, CHR 0x9F, CHR 0x92, CHR 0xA8]"

definition thinking_sign :: string where
  "thinking_sign = [CHR 0xF0, CHR 0x9F, CHR 0xA4, CHR 0x94]"

definition brain_sign :: string where
  "brain_sign = [CHR 0xF0, CHR 0x9F, CHR 0xA7, CHR 0xA0]"

definition masks_sign :: string where
  "masks_sign = [CHR 0xF0, CHR 0x9F, CHR 0x8E, CHR 0xAD]"

definition full_block :: string where
  "full_block = [CHR 0xE2, CHR 0x96, CHR 0x88]"

definition clipboard_sign :: string where
  "clipboard_sign = [CHR 0xF0, CHR 0x9F, CHR 0x93, CHR 0x8B]"

definition bulb_sign :: string where
  "bulb_sign = [CHR 0xF0, CHR 0x9F, CHR 0x92, CHR 0xA1]"



definition warning_emoji :: string where
  "warning_emoji = [CHR 0xE2, CHR 0x9A, CHR 0xA0, CHR 0xEF, CHR 0xB8, CHR 0x8F]"

definition high_voltage :: string where
  "high_voltage = [CHR 0xE2, CHR 0x9A, CHR 0xA1]"

definition white_circle :: string where
  "white_circle = [CHR 0xE2, CHR 0x97, CHR 0x8B]"

definition nl :: string where
  "nl = [CHR 0x0A]"

definition apostrophe :: string where
  "apostrophe = [CHR 0x27]"

section \<open>The concept graph (concept_graph.py)\<close>

text \<open>
  \<open>ConceptGraph\<close> holds one \<open>networkx.DiGraph\<close>. A node's attribute dict always has the
  keys \<open>type\<close>, \<open>definition\<close> and \<open>learned_at\<close>, which \<open>add_concept\<close> passes on every
  call, and the further keyword attributes of the caller. Nodes are kept in insertion
  order. Every edge carries the one attribute \<open>relationship\<close>; the edges are kept in
  insertion order, keyed by the ordered pair of their endpoints, so that the successors
  (predecessors) of a node come in the order in which its adjacency dict received them.
\<close>

record 'v attrs =
  attr_type :: string
  attr_definition :: string
  attr_learned_at :: string
  attr_extra :: "(string \<times> 'v) list"

record 'v digraph =
  nodes :: "(string \<times> 'v attrs) list"
  edges :: "((string \<times> string) \<times> string) list"

text \<open>\<open>ConceptGraph.__init__\<close>\<close>

definition empty_graph :: "'v digraph" where
  "empty_graph = \<lparr>nodes = [], edges = []\<rparr>"

text \<open>\<open>n in G\<close>\<close>

definition has_node :: "'v digraph \<Rightarrow> string \<Rightarrow> bool" where
  "has_node g n = (n \<in> set (map fst (nodes g)))"

definition number_of_nodes :: "'v digraph \<Rightarrow> nat" where
  "number_of_nodes g = length (nodes g)"

definition number_of_edges :: "'v digraph \<Rightarrow> nat" where
  "number_of_edges g = length (edges g)"

text \<open>\<open>old.update(new)\<close> on a plain dict.\<close>

definition dict_update :: "('k \<times> 'a) list \<Rightarrow> ('k \<times> 'a) list \<Rightarrow> ('k \<times> 'a) list" where
  "dict_update old new = fold (\<lambda>(k, v). AList.update k v) new old"

text \<open>
  \<open>DiGraph.add_node(n, **attr)\<close> of networkx: a new node gets the attributes; for a node
  that is already there the attribute dict is updated with them, key by key, and keeps
  every key the call does not name.
\<close>

definition update_attrs :: "'v attrs \<Rightarrow> 'v attrs \<Rightarrow> 'v attrs" where
  "update_attrs old new = new\<lparr>attr_extra := dict_update (attr_extra old) (attr_extra new)\<rparr>"

definition add_node :: "'v digraph \<Rightarrow> string \<Rightarrow> 'v attrs \<Rightarrow> 'v digraph" where
  "add_node g n a =
     (if has_node g n then g\<lparr>nodes := AList.map_entry n (\<lambda>old. update_attrs old a) (nodes g)\<rparr>
      else g\<lparr>nodes := nodes g @ [(n, a)]\<rparr>)"

text \<open>
  \<open>DiGraph.add_edge(u, v, relationship=r)\<close> of networkx, for endpoints that are nodes
  already (its only call, in \<open>connect_concepts\<close>, is behind that check): the edge is
  created, or its \<open>relationship\<close> overwritten.
\<close>

definition add_edge :: "'v digraph \<Rightarrow> string \<Rightarrow> string \<Rightarrow> string \<Rightarrow> 'v digraph" where
  "add_edge g u v r = g\<lparr>edges := AList.update (u, v) r (edges g)\<rparr>"

text \<open>
  \<open>ConceptGraph.add_concept(name, concept_type, definition, **attributes)\<close> at the time
  \<open>now\<close> (the text of \<open>datetime.now().isoformat()\<close>). Python refuses a keyword that is
  given twice: a further attribute cannot be called like a parameter of \<open>add_concept\<close> or
  of \<open>add_node\<close>, nor \<open>type\<close> or \<open>learned_at\<close>. The result is the line printed and the
  new graph.
\<close>

definition reserved_keywords :: "string list" where
  "reserved_keywords =
     [''self'', ''name'', ''concept_type'', ''definition'', ''node_for_adding'',
      ''type'', ''learned_at'']"

definition add_concept ::
  "'v digraph \<Rightarrow> string \<Rightarrow> string \<Rightarrow> string \<Rightarrow> string \<Rightarrow> (string \<times> 'v) list
     \<Rightarrow> error + string \<times> 'v digraph" where
  "add_concept g now name concept_type defn attributes =
     (if \<exists>k \<in> set reserved_keywords. k \<in> set (map fst attributes) then Inl TypeError
      else Inr (check_mark @ '' Learned concept: '' @ name @ '' ('' @ concept_type @ '')'',
                add_node g name
                  \<lparr>attr_type = concept_type, attr_definition = defn,
                   attr_learned_at = now, attr_extra = attributes\<rparr>))"

text \<open>
  \<open>ConceptGraph.connect_concepts(from_concept, to_concept, relationship)\<close>: the line
  printed and the graph afterwards. The method returns nothing and raises nothing.
\<close>

definition not_found_warning :: string where
  "not_found_warning = warning_sign @ '' One or both concepts not found. Teach them first!''"

definition connect_concepts ::
  "'v digraph \<Rightarrow> string \<Rightarrow> string \<Rightarrow> string \<Rightarrow> string \<times> 'v digraph" where
  "connect_concepts g from_concept to_concept relationship =
     (if \<not> has_node g from_concept \<or> \<not> has_node g to_concept then (not_found_warning, g)
      else (check_mark @ '' Connected: '' @ from_concept @ '' --['' @ relationship @ '']--> ''
              @ to_concept,
            add_edge g from_concept to_concept relationship))"

text \<open>\<open>ConceptGraph.get_concept(name)\<close>\<close>

definition get_concept :: "'v digraph \<Rightarrow> string \<Rightarrow> 'v attrs option" where
  "get_concept g name = (if \<not> has_node g name then None else map_of (nodes g) name)"

text \<open>
  The outgoing relationships of a concept as pairs of target and label, and the incoming
  ones as pairs of source and label, each in the order of the adjacency dict.
\<close>

definition outgoing :: "'v digraph \<Rightarrow> string \<Rightarrow> (string \<times> string) list" where
  "outgoing g c = [(snd (fst e), snd e). e \<leftarrow> edges g, fst (fst e) = c]"

definition incoming :: "'v digraph \<Rightarrow> string \<Rightarrow> (string \<times> string) list" where
  "incoming g c = [(fst (fst e), snd e). e \<leftarrow> edges g, snd (fst e) = c]"

text \<open>The rules \<open>'='*50\<close>, \<open>'='*60\<close> and \<open>'-'*60\<close>.\<close>

definition rule50 :: string where
  "rule50 = replicate 50 CHR ''=''"

definition rule60 :: string where
  "rule60 = replicate 60 CHR ''=''"


text \<open>
  \<open>ConceptGraph.explain_concept(concept)\<close>. The lookup of the node's attributes finds
  nothing exactly when \<open>concept not in self.graph\<close>.
\<close>

definition explain_concept :: "'v digraph \<Rightarrow> string \<Rightarrow> string" where
  "explain_concept g concept =
     (case map_of (nodes g) concept of
        None \<Rightarrow> ''I haven't learned about '' @ apostrophe @ concept @ apostrophe
                 @ '' yet. Can you teach me?''
      | Some a \<Rightarrow>
          nl @ rule50 @ nl
          @ book_sign @ '' '' @ concept @ nl
          @ rule50 @ nl @ nl
          @ (if attr_definition a \<noteq> [] then ''Definition: '' @ attr_definition a @ nl @ nl
             else [])
          @ (if outgoing g concept \<noteq> [] then
               ''This concept:'' @ nl
               @ concat (map (\<lambda>(target, rel).
                    ''  '' @ bullet @ '' '' @ rel @ '' '' @ right_arrow @ '' '' @ target @ nl)
                  (outgoing g concept))
               @ nl
             else [])
          @ (if incoming g concept \<noteq> [] then
               ''Related from:'' @ nl
               @ concat (map (\<lambda>(source, rel).
                    ''  '' @ bullet @ '' '' @ source @ '' --['' @ rel @ '']'' @ right_arrow
                    @ '' this'' @ nl)
                  (incoming g concept))
             else []))"

subsection \<open>Shortest paths\<close>

text \<open>
  \<open>networkx.shortest_path(G, source, target)\<close> with no weight is
  \<open>bidirectional_shortest_path\<close>: a breadth-first search that grows a tree \<open>pred\<close> from
  the source along the edges and a tree \<open>succ\<close> from the target against them, one
  level at a time on the side with the smaller fringe, until a node is in both. A tree
  is a dict from a node to the node it was reached from (\<open>None\<close> at the root).
\<close>

type_synonym tree = "(string \<times> string option) list"

definition succ_nodes :: "'v digraph \<Rightarrow> string \<Rightarrow> string list" where
  "succ_nodes g c = [snd (fst e). e \<leftarrow> edges g, fst (fst e) = c]"

definition pred_nodes :: "'v digraph \<Rightarrow> string \<Rightarrow> string list" where
  "pred_nodes g c = [fst (fst e). e \<leftarrow> edges g, snd (fst e) = c]"

text \<open>The pairs \<open>(v, w)\<close> that \<open>for v in this_level: for w in nbrs[v]\<close> goes through.\<close>

definition level_pairs ::
  "(string \<Rightarrow> string list) \<Rightarrow> string list \<Rightarrow> (string \<times> string) list" where
  "level_pairs nbrs level = concat (map (\<lambda>v. map (\<lambda>w. (v, w)) (nbrs v)) level)"

text \<open>
  One level of the search on one side: \<open>seen\<close> is the tree of that side, \<open>other\<close> the
  tree of the other side. The result is \<open>Inl\<close> when a node of the other tree is met
  (the search returns at once), and the grown tree with the next fringe otherwise.
\<close>

fun expand_level ::
  "(string \<times> string) list \<Rightarrow> tree \<Rightarrow> tree \<Rightarrow> string list
     \<Rightarrow> (tree \<times> string) + (tree \<times> string list)" where
  "expand_level [] seen other fringe = Inr (seen, fringe)"
| "expand_level ((v, w) # ps) seen other fringe =
     (let new = (w \<notin> set (map fst seen));
          seen' = (if new then seen @ [(w, Some v)] else seen);
          fringe' = (if new then fringe @ [w] else fringe)
      in if w \<in> set (map fst other) then Inl (seen', w)
         else expand_level ps seen' other fringe')"

text \<open>
  The loop \<open>while forward_fringe and reverse_fringe\<close> of \<open>_bidirectional_pred_succ\<close>;
  leaving it raises \<open>NetworkXNoPath\<close>.
\<close>

function bfs_loop ::
  "'v digraph \<Rightarrow> tree \<Rightarrow> tree \<Rightarrow> string list \<Rightarrow> string list
     \<Rightarrow> error + (tree \<times> tree \<times> string)" where
  "bfs_loop g pred succ forward_fringe reverse_fringe =
     (if forward_fringe \<noteq> [] \<and> reverse_fringe \<noteq> [] then
        (if length forward_fringe \<le> length reverse_fringe then
           (case expand_level (level_pairs (succ_nodes g) forward_fringe) pred succ [] of
              Inl (pred', w) \<Rightarrow> Inr (pred', succ, w)
            | Inr (pred', fringe') \<Rightarrow> bfs_loop g pred' succ fringe' reverse_fringe)
         else
           (case expand_level (level_pairs (pred_nodes g) reverse_fringe) succ pred [] of
              Inl (succ', w) \<Rightarrow> Inr (pred, succ', w)
            | Inr (succ', fringe') \<Rightarrow> bfs_loop g pred succ' forward_fringe fringe'))
      else Inl NetworkXNoPath)"
  by pat_completeness auto

text \<open>
  The loop ends: a level that finds no new node empties its fringe, and a level that
  finds one takes an edge out of those whose far end is not yet in the tree.
\<close>

definition unseen_targets :: "'v digraph \<Rightarrow> tree \<Rightarrow> nat" where
  "unseen_targets g seen = length (filter (\<lambda>e. snd (fst e) \<notin> set (map fst seen)) (edges g))"

definition unseen_sources :: "'v digraph \<Rightarrow> tree \<Rightarrow> nat" where
  "unseen_sources g seen = length (filter (\<lambda>e. fst (fst e) \<notin> set (map fst seen)) (edges g))"

definition bfs_measure ::
  "'v digraph \<times> tree \<times> tree \<times> string list \<times> string list \<Rightarrow> nat" where
  "bfs_measure = (\<lambda>(g, pred, succ, ff, rf).
      2 * (unseen_targets g pred + unseen_sources g succ)
      + (if ff \<noteq> [] \<and> rf \<noteq> [] then 1 else 0))"

lemma expand_level_keys_mono:
  "expand_level ps seen other fringe = Inr (seen', fringe') \<Longrightarrow>
   set (map fst seen) \<subseteq> set (map fst seen')"
proof (induction ps seen other fringe rule: expand_level.induct)
  case (1 seen other fringe)
  then show ?case by simp
next
  case (2 v w ps seen other fringe)
  from 2(2) have nf: "w \<notin> set (map fst other)"
    by (auto simp: Let_def split: if_splits)
  show ?case
  proof (cases "w \<notin> set (map fst seen)")
    case True
    with 2(2) nf
    have "expand_level ps (seen @ [(w, Some v)]) other (fringe @ [w]) = Inr (seen', fringe')"
      by (simp add: Let_def)
    from 2(1)[OF refl refl refl nf] True this
    have "set (map fst (seen @ [(w, Some v)])) \<subseteq> set (map fst seen')" by simp
    then show ?thesis by auto
  next
    case False
    with 2(2) nf have "expand_level ps seen other fringe = Inr (seen', fringe')"
      by (simp add: Let_def)
    from 2(1)[OF refl refl refl nf] False this show ?thesis by simp
  qed
qed

lemma expand_level_new:
  "expand_level ps seen other fringe = Inr (seen', fringe') \<Longrightarrow> fringe' \<noteq> fringe \<Longrightarrow>
   \<exists>w \<in> snd ` set ps. w \<notin> set (map fst seen) \<and> w \<in> set (map fst seen')"
proof (induction ps seen other fringe rule: expand_level.induct)
  case (1 seen other fringe)
  then show ?case by simp
next
  case (2 v w ps seen other fringe)
  from 2(2) have nf: "w \<notin> set (map fst other)"
    by (auto simp: Let_def split: if_splits)
  show ?case
  proof (cases "w \<notin> set (map fst seen)")
    case True
    with 2(2) nf
    have eq: "expand_level ps (seen @ [(w, Some v)]) other (fringe @ [w]) = Inr (seen', fringe')"
      by (simp add: Let_def)
    from expand_level_keys_mono[OF eq] have "w \<in> set (map fst seen')" by auto
    with True show ?thesis by auto
  next
    case False
    with 2(2) nf have eq: "expand_level ps seen other fringe = Inr (seen', fringe')"
      by (simp add: Let_def)
    from 2(1)[OF refl refl refl nf] False eq 2(3)
    obtain x where "x \<in> snd ` set ps" "x \<notin> set (map fst seen)" "x \<in> set (map fst seen')"
      by auto
    then show ?thesis by auto
  qed
qed

lemma filter_length_mono:
  "(\<And>x. x \<in> set xs \<Longrightarrow> Q x \<Longrightarrow> P x) \<Longrightarrow> length (filter Q xs) \<le> length (filter P xs)"
  by (induction xs) auto

lemma filter_length_less:
  "(\<And>x. x \<in> set xs \<Longrightarrow> Q x \<Longrightarrow> P x) \<Longrightarrow> y \<in> set xs \<Longrightarrow> P y \<Longrightarrow> \<not> Q y \<Longrightarrow>
   length (filter Q xs) < length (filter P xs)"
proof (induction xs)
  case Nil
  then show ?case by simp
next
  case (Cons a xs)
  show ?case
  proof (cases "y = a")
    case True
    have "length (filter Q xs) \<le> length (filter P xs)"
      using Cons.prems(1) by (intro filter_length_mono) auto
    with True Cons.prems show ?thesis by simp
  next
    case False
    with Cons.prems have "y \<in> set xs" by simp
    from Cons.IH[OF _ this Cons.prems(3,4)] Cons.prems(1)
    have "length (filter Q xs) < length (filter P xs)" by auto
    with Cons.prems(1)[of a] show ?thesis by auto
  qed
qed

lemma level_pairs_succ:
  "w \<in> snd ` set (level_pairs (succ_nodes g) level) \<Longrightarrow> \<exists>e \<in> set (edges g). snd (fst e) = w"
  by (fastforce simp: level_pairs_def succ_nodes_def)

lemma level_pairs_pred:
  "w \<in> snd ` set (level_pairs (pred_nodes g) level) \<Longrightarrow> \<exists>e \<in> set (edges g). fst (fst e) = w"
  by (fastforce simp: level_pairs_def pred_nodes_def)

lemma forward_step_decreases:
  assumes "expand_level (level_pairs (succ_nodes g) ff) pred succ [] = Inr (pred', fringe')"
    and "ff \<noteq> []" "rf \<noteq> []"
  shows "bfs_measure (g, pred', succ, fringe', rf) < bfs_measure (g, pred, succ, ff, rf)"
proof (cases "fringe' = []")
  case True
  have "unseen_targets g pred' \<le> unseen_targets g pred"
    unfolding unseen_targets_def using expand_level_keys_mono[OF assms(1)]
    by (intro filter_length_mono) auto
  with True assms(2,3) show ?thesis by (simp add: bfs_measure_def)
next
  case False
  from expand_level_new[OF assms(1)] False
  obtain w where w: "w \<in> snd ` set (level_pairs (succ_nodes g) ff)"
    "w \<notin> set (map fst pred)" "w \<in> set (map fst pred')" by auto
  from level_pairs_succ[OF w(1)] obtain e where e: "e \<in> set (edges g)" "snd (fst e) = w"
    by auto
  have "unseen_targets g pred' < unseen_targets g pred"
    unfolding unseen_targets_def using expand_level_keys_mono[OF assms(1)] e w(2,3)
    by (intro filter_length_less[where y = e]) auto
  with assms(2,3) show ?thesis by (simp add: bfs_measure_def)
qed

lemma reverse_step_decreases:
  assumes "expand_level (level_pairs (pred_nodes g) rf) succ pred [] = Inr (succ', fringe')"
    and "ff \<noteq> []" "rf \<noteq> []"
  shows "bfs_measure (g, pred, succ', ff, fringe') < bfs_measure (g, pred, succ, ff, rf)"
proof (cases "fringe' = []")
  case True
  have "unseen_sources g succ' \<le> unseen_sources g succ"
    unfolding unseen_sources_def using expand_level_keys_mono[OF assms(1)]
    by (intro filter_length_mono) auto
  with True assms(2,3) show ?thesis by (simp add: bfs_measure_def)
next
  case False
  from expand_level_new[OF assms(1)] False
  obtain w where w: "w \<in> snd ` set (level_pairs (pred_nodes g) rf)"
    "w \<notin> set (map fst succ)" "w \<in> set (map fst succ')" by auto
  from level_pairs_pred[OF w(1)] obtain e where e: "e \<in> set (edges g)" "fst (fst e) = w"
    by auto
  have "unseen_sources g succ' < unseen_sources g succ"
    unfolding unseen_sources_def using expand_level_keys_mono[OF assms(1)] e w(2,3)
    by (intro filter_length_less[where y = e]) auto
  with assms(2,3) show ?thesis by (simp add: bfs_measure_def)
qed

termination bfs_loop
  apply (relation "measure bfs_measure")
    apply simp
   apply (simp add: forward_step_decreases)
  apply (simp add: reverse_step_decreases)
  done

declare bfs_loop.simps [simp del]

text \<open>\<open>_bidirectional_pred_succ(G, source, target)\<close>\<close>

definition bidirectional_pred_succ ::
  "'v digraph \<Rightarrow> string \<Rightarrow> string \<Rightarrow> error + (tree \<times> tree \<times> string)" where
  "bidirectional_pred_succ g source target =
     (if target = source then Inr ([(target, None)], [(source, None)], source)
      else bfs_loop g [(source, None)] [(target, None)] [source] [target])"

text \<open>
  The loop \<open>while w is not None: path.append(w); w = d[w]\<close> that reads a path off a
  tree. On a dict with a cycle it does not return, hence the \<open>option\<close>.
\<close>

partial_function (option) follow ::
  "tree \<Rightarrow> string option \<Rightarrow> string list \<Rightarrow> (error + string list) option" where
  "follow d w path =
     (case w of
        None \<Rightarrow> Some (Inr path)
      | Some x \<Rightarrow> (case map_of d x of
                     None \<Rightarrow> Some (Inl KeyError)
                   | Some nxt \<Rightarrow> follow d nxt (path @ [x])))"

declare follow.simps [code]

text \<open>
  The trees the search builds: every node is entered once, the root with \<open>None\<close>,
  any other node with a node entered before it. On such a dict the loop above returns.
\<close>

inductive tree_ok :: "tree \<Rightarrow> bool" where
  empty: "tree_ok []"
| root: "tree_ok d \<Longrightarrow> w \<notin> set (map fst d) \<Longrightarrow> tree_ok (d @ [(w, None)])"
| child: "tree_ok d \<Longrightarrow> w \<notin> set (map fst d) \<Longrightarrow> v \<in> set (map fst d)
          \<Longrightarrow> tree_ok (d @ [(w, Some v)])"

text \<open>
  \<open>bidirectional_shortest_path(G, source, target)\<close>; the text of \<open>NodeNotFound\<close> is that
  of networkx 3.0, the oldest version the package accepts.
\<close>

definition shortest_path ::
  "'v digraph \<Rightarrow> string \<Rightarrow> string \<Rightarrow> (error + string list) option" where
  "shortest_path g source target =
     (if \<not> has_node g source \<or> \<not> has_node g target then
        Some (Inl (NodeNotFound
          (''Either source '' @ source @ '' or target '' @ target @ '' is not in G'')))
      else
        (case bidirectional_pred_succ g source target of
           Inl e \<Rightarrow> Some (Inl e)
         | Inr (pred, succ, w) \<Rightarrow>
             (case follow pred (Some w) [] of
                None \<Rightarrow> None
              | Some (Inl e) \<Rightarrow> Some (Inl e)
              | Some (Inr back) \<Rightarrow>
                  (case rev back of
                     [] \<Rightarrow> Some (Inl IndexError)
                   | p # ps \<Rightarrow>
                       (case map_of succ (last (p # ps)) of
                          None \<Rightarrow> Some (Inl KeyError)
                        | Some w' \<Rightarrow> follow succ w' (p # ps))))))"

text \<open>
  The steps of \<open>find_path\<close>: one line for each two neighbours of the path, with the
  label \<open>self.graph[source][target]['relationship']\<close>, which raises where there is no
  such edge.
\<close>

fun path_steps :: "'v digraph \<Rightarrow> string list \<Rightarrow> error + string" where
  "path_steps g (source # target # rest) =
     (case map_of (edges g) (source, target) of
        None \<Rightarrow> Inl KeyError
      | Some rel \<Rightarrow>
          (case path_steps g (target # rest) of
             Inl e \<Rightarrow> Inl e
           | Inr lines \<Rightarrow>
               Inr (''  '' @ source @ '' --['' @ rel @ '']--> '' @ target @ nl @ lines)))"
| "path_steps g path = Inr []"

text \<open>
  \<open>ConceptGraph.find_path(from_concept, to_concept)\<close>: the two exceptions of networkx
  become messages, any other exception leaves the method.
\<close>

definition find_path :: "'v digraph \<Rightarrow> string \<Rightarrow> string \<Rightarrow> (error + string) option" where
  "find_path g from_concept to_concept =
     (case shortest_path g from_concept to_concept of
        None \<Rightarrow> None
      | Some (Inl NetworkXNoPath) \<Rightarrow>
          Some (Inr (''No connection found between '' @ apostrophe @ from_concept @ apostrophe
                     @ '' and '' @ apostrophe @ to_concept @ apostrophe))
      | Some (Inl (NodeNotFound msg)) \<Rightarrow> Some (Inr (''Concept not found: '' @ msg))
      | Some (Inl e) \<Rightarrow> Some (Inl e)
      | Some (Inr path) \<Rightarrow>
          (case path_steps g path of
             Inl e \<Rightarrow> Some (Inl e)
           | Inr lines \<Rightarrow>
               Some (Inr (nl @ link_sign @ '' Reasoning path from '' @ apostrophe @ from_concept
                          @ apostrophe @ '' to '' @ apostrophe @ to_concept @ apostrophe
                          @ '':'' @ nl @ lines))))"

section \<open>The thinking space (metacognition.py)\<close>

record log_entry =
  log_question :: string
  log_timestamp :: string
  log_mode :: string

record 'v metacognition =
  kb :: "'v digraph"
  confidence_threshold :: rat
  thinking_log :: "log_entry list"

definition default_confidence_threshold :: rat where
  "default_confidence_threshold = 7 / 10"

text \<open>\<open>MetacognitionSpace.__init__(knowledge_graph, confidence_threshold)\<close>\<close>

definition new_metacognition :: "'v digraph \<Rightarrow> rat \<Rightarrow> 'v metacognition" where
  "new_metacognition knowledge_graph threshold =
     \<lparr>kb = knowledge_graph, confidence_threshold = threshold, thinking_log = []\<rparr>"

definition stop_words :: "string list" where
  "stop_words =
     [''what'', ''is'', ''are'', ''the'', ''a'', ''an'', ''how'', ''does'',
      ''do'', ''can'', ''could'', ''would'', ''should'', ''about'', ''to'']"

text \<open>\<open>MetacognitionSpace._extract_keywords(question)\<close>\<close>

definition extract_keywords :: "string \<Rightarrow> string list" where
  "extract_keywords question =
     (let words = split_ws (remove_char CHR '','' (remove_char CHR ''?'' (lower question)))
      in filter (\<lambda>w. w \<notin> set stop_words \<and> 2 < length w) words)"

text \<open>
  The nodes one of whose keywords occurs in the lower-cased name, in the order of
  \<open>self.kb.graph.nodes()\<close>: the list both ways of thinking build.
\<close>

definition relevant_concepts :: "'v digraph \<Rightarrow> string list \<Rightarrow> string list" where
  "relevant_concepts g words =
     filter (\<lambda>node. \<exists>word \<in> set words. str_in word (lower node)) (map fst (nodes g))"

text \<open>\<open>MetacognitionSpace._fast_thinking(question)\<close>: the answer and its confidence.\<close>

definition fast_thinking :: "'v metacognition \<Rightarrow> string \<Rightarrow> string \<times> rat" where
  "fast_thinking ms question =
     (let words = extract_keywords question;
          relevant = relevant_concepts (kb ms) words
      in case relevant of
           [] \<Rightarrow> (''I don't know yet.'', 0)
         | [c] \<Rightarrow> (explain_concept (kb ms) c, 8 / 10)
         | _ \<Rightarrow> (join nl (map (explain_concept (kb ms)) (take 3 relevant)), 5 / 10))"

text \<open>\<open>MetacognitionSpace._generate_learning_request(question)\<close>\<close>

definition generate_learning_request :: "string \<Rightarrow> string" where
  "generate_learning_request question =
     ''I need more knowledge to answer: '' @ apostrophe @ question @ apostrophe @ nl @ nl
     @ ''Can you teach me the relevant concepts? Use:'' @ nl
     @ ''  kb.add_concept(name, type, definition)'' @ nl
     @ ''  kb.connect_concepts(concept1, concept2, relationship)''"

text \<open>The pairs of \<open>for i, concept in enumerate(relevant): for other in relevant[i+1:]\<close>.\<close>

fun later_pairs :: "string list \<Rightarrow> (string \<times> string) list" where
  "later_pairs [] = []"
| "later_pairs (c # cs) = map (Pair c) cs @ later_pairs cs"

text \<open>The paths that loop adds to the reasoning chain.\<close>

fun collect_paths :: "'v digraph \<Rightarrow> (string \<times> string) list \<Rightarrow> (error + string list) option" where
  "collect_paths g [] = Some (Inr [])"
| "collect_paths g ((concept, other) # ps) =
     (case find_path g concept other of
        None \<Rightarrow> None
      | Some (Inl e) \<Rightarrow> Some (Inl e)
      | Some (Inr path) \<Rightarrow>
          (case collect_paths g ps of
             None \<Rightarrow> None
           | Some (Inl e) \<Rightarrow> Some (Inl e)
           | Some (Inr rest) \<Rightarrow>
               Some (Inr ((if \<not> str_in ''No connection'' path then [path] else []) @ rest))))"

text \<open>
  \<open>MetacognitionSpace._slow_thinking(question)\<close> at the time \<open>now\<close>: what the call ends
  with (the answer or an exception) and the thinking space afterwards.
\<close>

definition slow_thinking ::
  "'v metacognition \<Rightarrow> string \<Rightarrow> string \<Rightarrow> ((error + string) \<times> 'v metacognition) option" where
  "slow_thinking ms now question =
     (let ms' = ms\<lparr>thinking_log := thinking_log ms
                    @ [\<lparr>log_question = question, log_timestamp = now,
                        log_mode = ''deep_thinking''\<rparr>]\<rparr>;
          words = extract_keywords question;
          relevant = relevant_concepts (kb ms') words
      in if relevant = [] then Some (Inr (generate_learning_request question), ms')
         else
           (case collect_paths (kb ms') (later_pairs relevant) of
              None \<Rightarrow> None
            | Some (Inl e) \<Rightarrow> Some (Inl e, ms')
            | Some (Inr paths) \<Rightarrow>
                Some (Inr (nl @ brain_sign @ '' Deep Analysis:'' @ nl
                           @ join nl (map (explain_concept (kb ms')) relevant @ paths)),
                      ms')))"

text \<open>
  \<open>MetacognitionSpace.process_question(question)\<close> at the time \<open>now\<close>: the lines printed,
  what the call ends with, and the thinking space afterwards.
\<close>

definition process_question ::
  "'v metacognition \<Rightarrow> string \<Rightarrow> string
     \<Rightarrow> (string list \<times> (error + string) \<times> 'v metacognition) option" where
  "process_question ms now question =
     (let banner = [nl @ question_sign @ '' Question: '' @ question, rule60];
          (quick_answer, confidence) = fast_thinking ms question
      in if confidence_threshold ms < confidence then
           Some (banner @ [dash_sign @ '' Fast answer (confidence: '' @ fmt2f confidence @ '')''],
                 Inr quick_answer, ms)
         else
           (case slow_thinking ms now question of
              None \<Rightarrow> None
            | Some (result, ms') \<Rightarrow>
                Some (banner @ [thinking_sign @ '' Low confidence ('' @ fmt2f confidence
                                @ ''). Entering deep thinking mode...''],
                      result, ms')))"

text \<open>\<open>MetacognitionSpace.set_confidence_threshold(threshold)\<close>\<close>

definition set_confidence_threshold ::
  "'v metacognition \<Rightarrow> rat \<Rightarrow> (error + string) \<times> 'v metacognition" where
  "set_confidence_threshold ms threshold =
     (if \<not> (0 \<le> threshold \<and> threshold \<le> 1) then (Inl ValueError, ms)
      else (Inr (check_mark @ '' Confidence threshold set to: '' @ fmt2f threshold),
            ms\<lparr>confidence_threshold := threshold\<rparr>))"

section \<open>Ideologies (ideology.py)\<close>

record ideology =
  ideo_values :: "(string \<times> rat) list"
  ideo_principles :: "string list"
  ideo_description :: string
  ideo_examples :: "string list"

text \<open>\<open>self.ideologies\<close>, a dict from names to ideologies.\<close>

type_synonym framework = "(string \<times> ideology) list"

text \<open>
  \<open>IdeologyFramework.teach_ideology(name, core_values, principles, description,
  examples)\<close>: what the call ends with (the line printed or an exception) and the
  framework afterwards.
\<close>

definition teach_ideology ::
  "framework \<Rightarrow> string \<Rightarrow> (string \<times> rat) list \<Rightarrow> string list \<Rightarrow> string \<Rightarrow> string list option
     \<Rightarrow> (error + string) \<times> framework" where
  "teach_ideology fw name core_values principles description examples =
     (if \<not> (\<forall>v \<in> set (map snd core_values). 0 \<le> v \<and> v \<le> 1) then (Inl ValueError, fw)
      else (Inr (check_mark @ '' Learned ideology: '' @ name),
            AList.update name
              \<lparr>ideo_values = core_values, ideo_principles = principles,
               ideo_description = description,
               ideo_examples = (case examples of None \<Rightarrow> [] | Some xs \<Rightarrow> xs)\<rparr> fw))"

text \<open>\<open>IdeologyFramework.list_ideologies()\<close>\<close>

definition list_ideologies :: "framework \<Rightarrow> string list" where
  "list_ideologies fw = map fst fw"

text \<open>\<open>IdeologyFramework.get_ideology(name)\<close>\<close>

definition get_ideology :: "framework \<Rightarrow> string \<Rightarrow> ideology option" where
  "get_ideology fw name = map_of fw name"

text \<open>\<open>d.get(k, default)\<close>\<close>

definition dict_get :: "('k \<times> 'a) list \<Rightarrow> 'k \<Rightarrow> 'a \<Rightarrow> 'a" where
  "dict_get d k dflt = (case map_of d k of None \<Rightarrow> dflt | Some v \<Rightarrow> v)"

definition value_keywords :: "(string \<times> string list) list" where
  "value_keywords =
     [(''freedom'', [''liberty'', ''choice'', ''autonomy'']),
      (''equality'', [''equal'', ''fair'', ''equitable'']),
      (''security'', [''safe'', ''protect'', ''stability'']),
      (''property'', [''ownership'', ''private'', ''assets'']),
      (''collective'', [''common'', ''shared'', ''together''])]"

text \<open>\<open>IdeologyFramework._assess_value_impact(situation, value)\<close>\<close>

definition assess_value_impact :: "string \<Rightarrow> string \<Rightarrow> string" where
  "assess_value_impact situation val =
     (let situation_lower = lower situation;
          value_lower = lower val
      in if str_in value_lower situation_lower then ''Directly affected '' @ warning_emoji
         else if \<exists>kw \<in> set (dict_get value_keywords value_lower []). str_in kw situation_lower
           then ''Indirectly impacted '' @ high_voltage
         else ''Minimal impact '' @ white_circle)"

definition government_words :: "string list" where
  "government_words = [''government'', ''regulation'', ''law'', ''mandate'']"

definition economy_words :: "string list" where
  "economy_words = [''economy'', ''market'', ''business'', ''wealth'']"

definition oppose_intervention :: string where
  "oppose_intervention =
     ''  '' @ right_arrow
     @ '' Oppose government intervention. Preserve individual freedom and voluntary action.''"

definition support_if_welfare :: string where
  "support_if_welfare =
     ''  '' @ right_arrow
     @ '' Support if it promotes collective welfare and reduces inequality.''"

definition free_markets :: string where
  "free_markets =
     ''  '' @ right_arrow
     @ '' Let markets operate freely. Minimize restrictions on economic activity.''"

definition equitable_distribution :: string where
  "equitable_distribution =
     ''  '' @ right_arrow @ '' Ensure economic decisions promote equitable distribution.''"

text \<open>
  \<open>max(items, key=lambda x: x[1])\<close> on a list that is not empty: the first item of the
  greatest weight.
\<close>

fun max_by_weight :: "string \<times> rat \<Rightarrow> (string \<times> rat) list \<Rightarrow> string \<times> rat" where
  "max_by_weight best [] = best"
| "max_by_weight best (x # xs) = max_by_weight (if snd best < snd x then x else best) xs"

text \<open>
  The two keyword checks of \<open>_generate_recommendation\<close>, each with the recommendation it
  returns, if it returns one, and the default, the top value; \<open>max\<close> of no items raises
  \<open>ValueError\<close>.
\<close>

definition government_rule :: "string \<Rightarrow> (string \<times> rat) list \<Rightarrow> string option" where
  "government_rule situation_lower vals =
     (if \<exists>word \<in> set government_words. str_in word situation_lower then
        (if 7 / 10 < dict_get vals ''limited_government'' 0 \<or> 8 / 10 < dict_get vals ''freedom'' 0
           then Some oppose_intervention
         else if 7 / 10 < dict_get vals ''collective_welfare'' 0
                 \<or> 8 / 10 < dict_get vals ''equality'' 0
           then Some support_if_welfare
         else None)
      else None)"

definition economy_rule :: "string \<Rightarrow> (string \<times> rat) list \<Rightarrow> string option" where
  "economy_rule situation_lower vals =
     (if \<exists>word \<in> set economy_words. str_in word situation_lower then
        (if 7 / 10 < dict_get vals ''free_markets'' 0 then Some free_markets
         else if 8 / 10 < dict_get vals ''equality'' 0 then Some equitable_distribution
         else None)
      else None)"


definition top_value_rule :: "(string \<times> rat) list \<Rightarrow> error + string" where
  "top_value_rule vals =
     (case vals of
        [] \<Rightarrow> Inl ValueError
      | x # xs \<Rightarrow>
          Inr (''  '' @ right_arrow @ '' Prioritize '' @ fst (max_by_weight x xs)
               @ '' in decision-making process.''))"

text \<open>\<open>IdeologyFramework._generate_recommendation(situation, values, principles)\<close>\<close>

definition generate_recommendation ::
  "string \<Rightarrow> (string \<times> rat) list \<Rightarrow> string list \<Rightarrow> error + string" where
  "generate_recommendation situation vals principles =
     (let situation_lower = lower situation
      in case government_rule situation_lower vals of
           Some r \<Rightarrow> Inr r
         | None \<Rightarrow>
             (case economy_rule situation_lower vals of
                Some r \<Rightarrow> Inr r
              | None \<Rightarrow> top_value_rule vals))"


text \<open>\<open>sorted(items, key=lambda x: x[1], reverse=True)\<close>: by weight, greatest first, stable.\<close>

definition sorted_values :: "(string \<times> rat) list \<Rightarrow> (string \<times> rat) list" where
  "sorted_values vals = sort_key (\<lambda>x. - snd x) vals"

text \<open>
  The text \<open>analyze_from_perspective\<close> has built when it asks for the recommendation:
  the header, the overview, the values by priority, their impact and the principles.
\<close>

definition analysis_head :: "string \<Rightarrow> string \<Rightarrow> ideology \<Rightarrow> string" where
  "analysis_head situation ideology_name ideology =
     nl @ rule60 @ nl
     @ masks_sign @ '' '' @ ideology_name @ '' Perspective'' @ nl
     @ rule60 @ nl @ nl
     @ (if ideo_description ideology \<noteq> []
          then ''Overview: '' @ ideo_description ideology @ nl @ nl else [])
     @ ''Core Values (by priority):'' @ nl
     @ concat (map (\<lambda>(val, importance).
          ''  '' @ bullet @ '' '' @ ljust 20 val @ '' ''
          @ str_times full_block (trunc (importance * 10)) @ '' ''
          @ fmt2f importance @ nl)
        (sorted_values (ideo_values ideology)))
     @ nl @ clipboard_sign @ '' Situation: '' @ situation @ nl @ nl
     @ ''Value Impact Assessment:'' @ nl
     @ concat (map (\<lambda>(val, importance).
          ''  '' @ bullet @ '' '' @ val @ '': '' @ assess_value_impact situation val @ nl)
        (sorted_values (ideo_values ideology)))
     @ nl @ ''Relevant Principles:'' @ nl
     @ concat (map (\<lambda>(i, principle). ''  '' @ str_nat i @ ''. '' @ principle @ nl)
        (zip [1 ..< Suc (length (ideo_principles ideology))] (ideo_principles ideology)))"

text \<open>\<open>IdeologyFramework.analyze_from_perspective(situation, ideology_name)\<close>\<close>

definition analyze_from_perspective :: "framework \<Rightarrow> string \<Rightarrow> string \<Rightarrow> error + string" where
  "analyze_from_perspective fw situation ideology_name =
     (case map_of fw ideology_name of
        None \<Rightarrow> Inr (''I haven't learned about '' @ ideology_name @ '' yet.'')
      | Some ideology \<Rightarrow>
          (case generate_recommendation situation (ideo_values ideology)
                  (ideo_principles ideology) of
             Inl e \<Rightarrow> Inl e
           | Inr recommendation \<Rightarrow>
               Inr (analysis_head situation ideology_name ideology
                    @ nl @ bulb_sign @ '' Recommendation:'' @ nl @ recommendation @ nl)))"








section \<open>Example states\<close>

text \<open>
  A graph with the one concept \<open>Democracy\<close>, and the graph left by teaching \<open>Freedom\<close>
  with a further attribute \<open>importance\<close> to the empty graph.
\<close>

definition democracy_graph :: "rat digraph" where
  "democracy_graph =
     \<lparr>nodes = [(''Democracy'',
         \<lparr>attr_type = ''political_system'', attr_definition = ''Government by the people'',
          attr_learned_at = ''2024-01-01T09:00:00'', attr_extra = []\<rparr>)],
      edges = []\<rparr>"

definition freedom_graph :: "rat digraph" where
  "freedom_graph =
     \<lparr>nodes = [(''Freedom'',
         \<lparr>attr_type = ''value'', attr_definition = ''Power to act without constraint'',
          attr_learned_at = ''2024-01-01T09:00:00'',
          attr_extra = [(''importance'', 9 / 10)]\<rparr>)],
      edges = []\<rparr>"

text \<open>The graph with the two concepts \<open>Democracy\<close> and \<open>Freedom\<close> and no relationship.\<close>

definition two_concepts_graph :: "rat digraph" where
  "two_concepts_graph =
     \<lparr>nodes = [(''Democracy'',
         \<lparr>attr_type = ''political_system'', attr_definition = ''Government by the people'',
          attr_learned_at = ''2024-01-01T09:00:00'', attr_extra = []\<rparr>),
        (''Freedom'',
         \<lparr>attr_type = ''value'', attr_definition = ''Power to act without constraint'',
          attr_learned_at = ''2024-01-01T09:05:00'', attr_extra = []\<rparr>)],
      edges = []\<rparr>"

text \<open>The ideology of the specification's example, and a framework that knows it alone.\<close>

definition libertarianism :: ideology where
  "libertarianism =
     \<lparr>ideo_values = [(''freedom'', 95 / 100), (''limited_government'', 85 / 100)],
      ideo_principles = [''Minimize government intervention''],
      ideo_description = ''Maximum individual liberty'',
      ideo_examples = []\<rparr>"

definition libertarian_framework :: framework where
  "libertarian_framework = [(''Libertarianism'', libertarianism)]"


section \<open>Properties of the concept graph\<close>

text \<open>The example states are states the operations produce.\<close>

lemma democracy_graph_taught:
  "add_concept empty_graph ''2024-01-01T09:00:00'' ''Democracy'' ''political_system''
       ''Government by the people'' []
     = Inr (check_mark @ '' Learned concept: Democracy (political_system)'', democracy_graph)"
  by (simp add: add_concept_def reserved_keywords_def add_node_def has_node_def
      empty_graph_def democracy_graph_def)

lemma two_concepts_graph_taught:
  "add_concept democracy_graph ''2024-01-01T09:05:00'' ''Freedom'' ''value''
       ''Power to act without constraint'' []
     = Inr (check_mark @ '' Learned concept: Freedom (value)'', two_concepts_graph)"
  by (simp add: add_concept_def reserved_keywords_def add_node_def has_node_def
      democracy_graph_def two_concepts_graph_def)

lemma libertarian_framework_taught:
  "teach_ideology [] ''Libertarianism''
       [(''freedom'', 95 / 100), (''limited_government'', 85 / 100)]
       [''Minimize government intervention''] ''Maximum individual liberty'' None
     = (Inr (check_mark @ '' Learned ideology: Libertarianism''), libertarian_framework)"
  by (simp add: teach_ideology_def libertarian_framework_def libertarianism_def)


lemma map_of_dict_update:
  "distinct (map fst new) \<Longrightarrow> map_of (dict_update old new) = map_of old ++ map_of new"
  unfolding dict_update_def
proof (induction new arbitrary: old)
  case Nil
  show ?case by simp
next
  case (Cons p new)
  obtain k v where p: "p = (k, v)" by (cases p)
  from Cons.prems p have k: "map_of new k = None" and d: "distinct (map fst new)"
    by (auto simp: map_of_eq_None_iff)
  have step: "fold (\<lambda>(k, v). AList.update k v) (p # new) old
      = fold (\<lambda>(k, v). AList.update k v) new (AList.update k v old)"
    by (simp add: p)
  have "map_of (fold (\<lambda>(k, v). AList.update k v) new (AList.update k v old))
        = map_of (AList.update k v old) ++ map_of new"
    using d by (rule Cons.IH)
  also have "\<dots> = map_of old ++ map_of (p # new)"
  proof (rule ext)
    fix x
    show "(map_of (AList.update k v old) ++ map_of new) x = (map_of old ++ map_of (p # new)) x"
      using k by (cases "x = k") (auto simp: p update_conv' map_add_def split: option.splits)
  qed
  finally show ?case
    unfolding step .
qed

lemma has_node_add_node: "has_node (add_node g n a) m = (m = n \<or> has_node g m)"
  by (cases "has_node g n") (auto simp add: add_node_def has_node_def dom_map_entry)

lemma get_concept_add_node:
  "get_concept (add_node g n a) n =
     Some (case get_concept g n of None \<Rightarrow> a | Some old \<Rightarrow> update_attrs old a)"
proof -
  have h: "has_node (add_node g n a) n" by (simp add: has_node_add_node)
  show ?thesis
  proof (cases "has_node g n")
    case True
    then obtain old where "map_of (nodes g) n = Some old"
      by (auto simp: has_node_def dest: weak_map_of_SomeI)
    with True show ?thesis
      unfolding get_concept_def using h
      by (simp add: add_node_def map_of_map_entry)
  next
    case False
    then have "map_of (nodes g) n = None"
      by (simp add: has_node_def map_of_eq_None_iff)
    with False show ?thesis
      unfolding get_concept_def using h
      by (simp add: add_node_def map_add_def)
  qed
qed

text \<open>
  C2, as the code has it. \<open>add_concept\<close> hands the attributes to \<open>add_node\<close>, which
  updates the attribute dict of a node that exists. After two calls for the same name
  (each with its keyword attributes under distinct keys, as a Python call has them) the
  concept has the type, the definition and the time of the second call; every further
  attribute of the second call has the second call's value; and every further attribute
  that only the first call supplied is still there, with the first call's value.
\<close>

theorem add_concept_twice_updates:
  assumes "add_concept g t1 name ty1 d1 ex1 = Inr (m1, g1)"
    and "add_concept g1 t2 name ty2 d2 ex2 = Inr (m2, g2)"
    and "distinct (map fst ex1)" and "distinct (map fst ex2)"
  shows "\<exists>a. get_concept g2 name = Some a
           \<and> attr_type a = ty2 \<and> attr_definition a = d2 \<and> attr_learned_at a = t2
           \<and> (\<forall>k v. map_of ex2 k = Some v \<longrightarrow> map_of (attr_extra a) k = Some v)
           \<and> (\<forall>k v. map_of ex1 k = Some v \<longrightarrow> map_of ex2 k = None
                  \<longrightarrow> map_of (attr_extra a) k = Some v)"
proof -
  let ?a1 = "\<lparr>attr_type = ty1, attr_definition = d1, attr_learned_at = t1, attr_extra = ex1\<rparr>"
  let ?a2 = "\<lparr>attr_type = ty2, attr_definition = d2, attr_learned_at = t2, attr_extra = ex2\<rparr>"
  from assms(1) have g1: "g1 = add_node g name ?a1"
    by (auto simp: add_concept_def split: if_splits)
  from assms(2) have g2: "g2 = add_node g1 name ?a2"
    by (auto simp: add_concept_def split: if_splits)
  obtain b where b: "get_concept g1 name = Some b"
    and b_extra: "map_of (attr_extra b) = (case get_concept g name of None \<Rightarrow> Map.empty
                    | Some old \<Rightarrow> map_of (attr_extra old)) ++ map_of ex1"
    unfolding g1 get_concept_add_node
    using assms(3)
    by (cases "get_concept g name") (simp_all add: update_attrs_def map_of_dict_update)
  have a: "get_concept g2 name = Some (update_attrs b ?a2)"
    unfolding g2 get_concept_add_node b by simp
  have extra: "map_of (attr_extra (update_attrs b ?a2)) = map_of (attr_extra b) ++ map_of ex2"
    using assms(4) by (simp add: update_attrs_def map_of_dict_update)
  have "attr_type (update_attrs b ?a2) = ty2" "attr_definition (update_attrs b ?a2) = d2"
    "attr_learned_at (update_attrs b ?a2) = t2"
    by (simp_all add: update_attrs_def)
  moreover have "\<forall>k v. map_of ex2 k = Some v
      \<longrightarrow> map_of (attr_extra (update_attrs b ?a2)) k = Some v"
    unfolding extra by (simp add: map_add_def)
  moreover have "\<forall>k v. map_of ex1 k = Some v \<longrightarrow> map_of ex2 k = None
      \<longrightarrow> map_of (attr_extra (update_attrs b ?a2)) k = Some v"
    unfolding extra b_extra by (simp add: map_add_def)
  ultimately show ?thesis
    unfolding a by blast
qed

text \<open>
  The theorem at work: \<open>Freedom\<close> is taught with \<open>importance=0.9\<close>, then again with
  \<open>scope=1\<close> only; \<open>importance\<close> is still an attribute of the concept.
\<close>

theorem add_concept_twice_updates_witness:
  "add_concept empty_graph ''2024-01-01T09:00:00'' ''Freedom'' ''value''
       ''Power to act without constraint'' [(''importance'', 9 / 10)]
     = Inr (check_mark @ '' Learned concept: Freedom (value)'', freedom_graph)
   \<and> add_concept freedom_graph ''2024-01-02T09:00:00'' ''Freedom'' ''right'' ''Liberty''
       [(''scope'', 1)]
     = Inr (check_mark @ '' Learned concept: Freedom (right)'',
            add_node freedom_graph ''Freedom''
              \<lparr>attr_type = ''right'', attr_definition = ''Liberty'',
               attr_learned_at = ''2024-01-02T09:00:00'', attr_extra = [(''scope'', 1)]\<rparr>)
   \<and> distinct (map fst [(''importance'', 9 / 10 :: rat)])
   \<and> distinct (map fst [(''scope'', 1 :: rat)])
   \<and> (\<exists>a. get_concept
            (add_node freedom_graph ''Freedom''
               \<lparr>attr_type = ''right'', attr_definition = ''Liberty'',
                attr_learned_at = ''2024-01-02T09:00:00'', attr_extra = [(''scope'', 1)]\<rparr>)
            ''Freedom'' = Some a
          \<and> attr_type a = ''right''
          \<and> map_of (attr_extra a) ''scope'' = Some 1
          \<and> map_of (attr_extra a) ''importance'' = Some (9 / 10))"
proof -
  let ?a2 = "\<lparr>attr_type = ''right'', attr_definition = ''Liberty'',
              attr_learned_at = ''2024-01-02T09:00:00'', attr_extra = [(''scope'', 1 :: rat)]\<rparr>"
  have first: "add_concept empty_graph ''2024-01-01T09:00:00'' ''Freedom''
       ''value'' ''Power to act without constraint'' [(''importance'', 9 / 10)]
     = Inr (check_mark @ '' Learned concept: Freedom (value)'', freedom_graph)"
    by (simp add: add_concept_def reserved_keywords_def add_node_def has_node_def
        empty_graph_def freedom_graph_def)
  have second: "add_concept freedom_graph ''2024-01-02T09:00:00'' ''Freedom'' ''right''
       ''Liberty'' [(''scope'', 1)]
     = Inr (check_mark @ '' Learned concept: Freedom (right)'',
            add_node freedom_graph ''Freedom'' ?a2)"
    by (simp add: add_concept_def reserved_keywords_def)
  have d1: "distinct (map fst [(''importance'', 9 / 10 :: rat)])" by simp
  have d2: "distinct (map fst [(''scope'', 1 :: rat)])" by simp
  from add_concept_twice_updates[OF first second d1 d2]
  obtain a where "get_concept (add_node freedom_graph ''Freedom'' ?a2) ''Freedom'' = Some a"
    "attr_type a = ''right''"
    "\<forall>k v. map_of [(''scope'', 1 :: rat)] k = Some v \<longrightarrow> map_of (attr_extra a) k = Some v"
    "\<forall>k v. map_of [(''importance'', 9 / 10 :: rat)] k = Some v
       \<longrightarrow> map_of [(''scope'', 1 :: rat)] k = None \<longrightarrow> map_of (attr_extra a) k = Some v"
    by auto
  then have "get_concept (add_node freedom_graph ''Freedom'' ?a2) ''Freedom'' = Some a
      \<and> attr_type a = ''right''
      \<and> map_of (attr_extra a) ''scope'' = Some 1
      \<and> map_of (attr_extra a) ''importance'' = Some (9 / 10)"
    by simp
  with first second d1 d2 show ?thesis by blast
qed

text \<open>
  C2 as the specification words it (only the second attribute set is visible) fails on
  the same two calls: the concept read back after the second call still carries
  \<open>importance\<close>, which only the first call supplied.
\<close>

theorem add_concept_twice_counterexample:
  "add_concept empty_graph ''2024-01-01T09:00:00'' ''Freedom'' ''value''
       ''Power to act without constraint'' [(''importance'', 9 / 10)]
     = Inr (check_mark @ '' Learned concept: Freedom (value)'', freedom_graph)
   \<and> add_concept freedom_graph ''2024-01-02T09:00:00'' ''Freedom'' ''right'' ''Liberty''
       [(''scope'', 1)]
     = Inr (check_mark @ '' Learned concept: Freedom (right)'',
            \<lparr>nodes = [(''Freedom'',
                \<lparr>attr_type = ''right'', attr_definition = ''Liberty'',
                 attr_learned_at = ''2024-01-02T09:00:00'',
                 attr_extra = [(''importance'', 9 / 10), (''scope'', 1)]\<rparr>)],
             edges = []\<rparr>)
   \<and> get_concept
        \<lparr>nodes = [(''Freedom'',
            \<lparr>attr_type = ''right'', attr_definition = ''Liberty'',
             attr_learned_at = ''2024-01-02T09:00:00'',
             attr_extra = [(''importance'', 9 / 10 :: rat), (''scope'', 1)]\<rparr>)],
         edges = []\<rparr>
        ''Freedom''
     = Some \<lparr>attr_type = ''right'', attr_definition = ''Liberty'',
             attr_learned_at = ''2024-01-02T09:00:00'',
             attr_extra = [(''importance'', 9 / 10), (''scope'', 1)]\<rparr>"
  by (simp add: add_concept_def reserved_keywords_def add_node_def has_node_def
      empty_graph_def freedom_graph_def update_attrs_def dict_update_def get_concept_def)

text \<open>
  C5. Whatever the graph, when one of the two names is not a stored concept,
  \<open>connect_concepts\<close> prints the warning that the concepts were not found and leaves the
  graph as it was: the same nodes with the same attributes, the same edges, the same
  number of edges. The model of the method has no error result, as the method has no
  \<open>raise\<close>.
\<close>

theorem connect_unknown_endpoint_unchanged:
  assumes "\<not> has_node g from_concept \<or> \<not> has_node g to_concept"
  shows "connect_concepts g from_concept to_concept relationship = (not_found_warning, g)
         \<and> nodes (snd (connect_concepts g from_concept to_concept relationship)) = nodes g
         \<and> edges (snd (connect_concepts g from_concept to_concept relationship)) = edges g
         \<and> number_of_edges (snd (connect_concepts g from_concept to_concept relationship))
             = number_of_edges g"
  using assms by (simp add: connect_concepts_def)

text \<open>The theorem at work: \<open>Freedom\<close> is not a concept of the graph with \<open>Democracy\<close> alone.\<close>

theorem connect_unknown_endpoint_unchanged_witness:
  "has_node democracy_graph ''Democracy'' \<and> \<not> has_node democracy_graph ''Freedom''
   \<and> connect_concepts democracy_graph ''Democracy'' ''Freedom'' ''requires''
     = (not_found_warning, democracy_graph)
   \<and> number_of_edges (snd (connect_concepts democracy_graph ''Democracy'' ''Freedom''
        ''requires'')) = 0"
proof -
  have d: "has_node democracy_graph ''Democracy''" and f: "\<not> has_node democracy_graph ''Freedom''"
    by (simp_all add: has_node_def democracy_graph_def)
  from f have h: "\<not> has_node democracy_graph ''Democracy'' \<or> \<not> has_node democracy_graph ''Freedom''"
    by simp
  have "number_of_edges democracy_graph = 0"
    by (simp add: number_of_edges_def democracy_graph_def)
  with connect_unknown_endpoint_unchanged[OF h, of "''requires''"] d f show ?thesis
    by simp
qed

lemma expand_level_meets:
  assumes "b \<in> snd ` set ps" and "\<forall>p \<in> set ps. fst p = a"
    and "b \<notin> set (map fst seen)" and "map_of seen a = Some None"
  shows "\<exists>seen'. expand_level ps seen [(b, None)] fringe = Inl (seen', b)
           \<and> map_of seen' b = Some (Some a) \<and> map_of seen' a = Some None"
  using assms
proof (induction ps arbitrary: seen fringe)
  case Nil
  then show ?case by simp
next
  case (Cons p ps)
  obtain v w where p: "p = (v, w)" by (cases p)
  from Cons.prems(2) p have v: "v = a" by simp
  show ?case
  proof (cases "w = b")
    case True
    have nb: "map_of seen b = None"
      using Cons.prems(3) by (simp add: map_of_eq_None_iff)
    have "map_of (seen @ [(b, Some a)]) b = Some (Some a)"
      by (simp add: map_add_def nb)
    moreover have "map_of (seen @ [(b, Some a)]) a = Some None"
      using Cons.prems(4) by (simp add: map_add_def)
    ultimately show ?thesis
      using True Cons.prems(3) by (simp add: p v Let_def)
  next
    case False
    let ?seen = "if w \<notin> set (map fst seen) then seen @ [(w, Some v)] else seen"
    let ?fr = "if w \<notin> set (map fst seen) then fringe @ [w] else fringe"
    from Cons.prems(1) False p have 1: "b \<in> snd ` set ps" by auto
    from Cons.prems(2) have 2: "\<forall>p \<in> set ps. fst p = a" by simp
    from Cons.prems(3) False have 3: "b \<notin> set (map fst ?seen)" by auto
    from Cons.prems(4) have 4: "map_of ?seen a = Some None" by (simp add: map_add_def)
    from Cons.IH[OF 1 2 3 4, of ?fr]
    obtain seen' where "expand_level ps ?seen [(b, None)] ?fr = Inl (seen', b)"
      "map_of seen' b = Some (Some a)" "map_of seen' a = Some None" by blast
    with False show ?thesis by (simp add: p Let_def)
  qed
qed

lemma edge_after_add_edge: "map_of (edges (add_edge g a b r)) (a, b) = Some r"
  by (simp add: add_edge_def update_conv')

lemma succ_nodes_add_edge: "b \<in> set (succ_nodes (add_edge g a b r) a)"
proof -
  have "((a, b), r) \<in> set (edges (add_edge g a b r))"
    using edge_after_add_edge[of g a b r] by (rule map_of_SomeD)
  then show ?thesis by (force simp: succ_nodes_def)
qed

lemma has_node_add_edge: "has_node (add_edge g a b r) n = has_node g n"
  by (simp add: has_node_def add_edge_def)

text \<open>
  C7. For two different concepts \<open>a\<close> and \<open>b\<close> of the graph, after
  \<open>connect_concepts(a, b, r)\<close> the shortest path from \<open>a\<close> to \<open>b\<close> is \<open>[a, b]\<close>, and
  \<open>find_path\<close> renders it as the one step \<open>a --[r]--> b\<close>. The search returns: the result
  is \<open>Some\<close>.
\<close>

theorem connect_then_shortest_path:
  assumes "has_node g a" and "has_node g b" and "a \<noteq> b"
  shows "shortest_path (snd (connect_concepts g a b r)) a b = Some (Inr [a, b])
       \<and> find_path (snd (connect_concepts g a b r)) a b
           = Some (Inr (nl @ link_sign @ '' Reasoning path from '' @ apostrophe @ a @ apostrophe
                        @ '' to '' @ apostrophe @ b @ apostrophe @ '':'' @ nl
                        @ ''  '' @ a @ '' --['' @ r @ '']--> '' @ b @ nl))"
proof -
  let ?g = "add_edge g a b r"
  from assms have g': "snd (connect_concepts g a b r) = ?g"
    by (simp add: connect_concepts_def)
  have pairs: "b \<in> snd ` set (level_pairs (succ_nodes ?g) [a])"
    "\<forall>p \<in> set (level_pairs (succ_nodes ?g) [a]). fst p = a"
    using succ_nodes_add_edge[of b g a r] by (auto simp: level_pairs_def image_iff)
  from expand_level_meets[OF pairs, of "[(a, None)]" "[]"] assms(3)
  obtain pred
    where level: "expand_level (level_pairs (succ_nodes ?g) [a]) [(a, None)] [(b, None)] []
        = Inl (pred, b)"
      and pb: "map_of pred b = Some (Some a)" and pa: "map_of pred a = Some None"
    by auto
  have search: "bidirectional_pred_succ ?g a b = Inr (pred, [(b, None)], b)"
    using assms(3) by (simp add: bidirectional_pred_succ_def bfs_loop.simps level)
  have to_source: "follow pred (Some b) [] = Some (Inr [b, a])"
    by (simp add: follow.simps pb pa)
  have to_target: "follow [(b, None)] None [a, b] = Some (Inr [a, b])"
    by (simp add: follow.simps)
  have sp: "shortest_path ?g a b = Some (Inr [a, b])"
    using assms(1,2) by (simp add: shortest_path_def has_node_add_edge search to_source to_target)
  have steps: "path_steps ?g [a, b] = Inr (''  '' @ a @ '' --['' @ r @ '']--> '' @ b @ nl)"
    by (simp add: edge_after_add_edge)
  show ?thesis
    unfolding g' by (simp add: sp find_path_def steps del: path_steps.simps)
qed

text \<open>The theorem at work: \<open>Democracy\<close> is connected to \<open>Freedom\<close> by \<open>requires\<close>.\<close>

theorem connect_then_shortest_path_witness:
  "has_node two_concepts_graph ''Democracy'' \<and> has_node two_concepts_graph ''Freedom''
   \<and> ''Democracy'' \<noteq> ''Freedom''
   \<and> shortest_path (snd (connect_concepts two_concepts_graph ''Democracy'' ''Freedom''
        ''requires'')) ''Democracy'' ''Freedom''
       = Some (Inr [''Democracy'', ''Freedom''])
   \<and> find_path (snd (connect_concepts two_concepts_graph ''Democracy'' ''Freedom''
        ''requires'')) ''Democracy'' ''Freedom''
       = Some (Inr (nl @ link_sign @ '' Reasoning path from '' @ apostrophe @ ''Democracy''
                    @ apostrophe @ '' to '' @ apostrophe @ ''Freedom'' @ apostrophe @ '':'' @ nl
                    @ ''  Democracy --[requires]--> Freedom'' @ nl))"
proof -
  have a: "has_node two_concepts_graph ''Democracy''"
    and b: "has_node two_concepts_graph ''Freedom''"
    by (simp_all add: has_node_def two_concepts_graph_def)
  have c: "''Democracy'' \<noteq> ''Freedom''" by simp
  from connect_then_shortest_path[OF a b c, of "''requires''"] a b c show ?thesis
    by simp
qed

subsection \<open>The search for a path returns\<close>

lemma map_of_new_key:
  assumes "w \<notin> set (map fst d)"
  shows "map_of (d @ (w, p) # ext) w = Some p"
proof -
  from assms have "map_of d w = None" by (simp add: map_of_eq_None_iff)
  then show ?thesis by (simp add: map_add_def)
qed

lemma follow_returns:
  "tree_ok d \<Longrightarrow> x \<in> set (map fst d) \<Longrightarrow>
   \<exists>p. follow (d @ ext) (Some x) path = Some (Inr (path @ x # p))"
proof (induction d arbitrary: x ext path rule: tree_ok.induct)
  case empty
  then show ?case by simp
next
  case (root d w)
  show ?case
  proof (cases "x = w")
    case True
    have "map_of ((d @ [(w, None)]) @ ext) w = Some None"
      using root.hyps(2) map_of_new_key[of w d None ext] by simp
    then have "follow ((d @ [(w, None)]) @ ext) (Some w) path = Some (Inr (path @ [w]))"
      by (subst follow.simps, simp only: option.case, subst follow.simps, simp only: option.case)
    with True show ?thesis by simp
  next
    case False
    with root.prems have "x \<in> set (map fst d)" by auto
    from root.IH[OF this, of "(w, None) # ext" path] show ?thesis by simp
  qed
next
  case (child d w v)
  show ?case
  proof (cases "x = w")
    case True
    have m: "map_of ((d @ [(w, Some v)]) @ ext) w = Some (Some v)"
      using child.hyps(2) map_of_new_key[of w d "Some v" ext] by simp
    from child.IH[OF child.hyps(3), of "(w, Some v) # ext" "path @ [w]"]
    obtain p where "follow ((d @ [(w, Some v)]) @ ext) (Some v) (path @ [w])
        = Some (Inr (path @ w # v # p))" by auto
    moreover have "follow ((d @ [(w, Some v)]) @ ext) (Some w) path
        = follow ((d @ [(w, Some v)]) @ ext) (Some v) (path @ [w])"
      by (subst follow.simps) (simp only: option.case m)
    ultimately show ?thesis using True by simp
  next
    case False
    with child.prems have "x \<in> set (map fst d)" by auto
    from child.IH[OF this, of "(w, Some v) # ext" path] show ?thesis by simp
  qed
qed

lemma tree_ok_parent:
  "tree_ok d \<Longrightarrow> map_of d x = Some (Some v) \<Longrightarrow> v \<in> set (map fst d)"
proof (induction d rule: tree_ok.induct)
  case empty
  then show ?case by simp
next
  case (root d w)
  then show ?case
    by (cases "x \<in> set (map fst d)")
       (auto simp: map_add_def map_of_eq_None_iff split: option.splits if_splits)
next
  case (child d w u)
  then show ?case
    by (cases "x \<in> set (map fst d)")
       (auto simp: map_add_def map_of_eq_None_iff split: option.splits if_splits)
qed

lemma expand_level_tree_ok:
  "tree_ok seen \<Longrightarrow> \<forall>p \<in> set ps. fst p \<in> set (map fst seen) \<Longrightarrow>
   set fringe \<subseteq> set (map fst seen) \<Longrightarrow>
   (case expand_level ps seen other fringe of
      Inl (seen', w) \<Rightarrow> tree_ok seen' \<and> w \<in> set (map fst seen') \<and> w \<in> set (map fst other)
    | Inr (seen', fringe') \<Rightarrow> tree_ok seen' \<and> set fringe' \<subseteq> set (map fst seen'))"
proof (induction ps seen other fringe rule: expand_level.induct)
  case (1 seen other fringe)
  then show ?case by simp
next
  case (2 v w ps seen other fringe)
  let ?new = "w \<notin> set (map fst seen)"
  let ?seen = "if ?new then seen @ [(w, Some v)] else seen"
  let ?fr = "if ?new then fringe @ [w] else fringe"
  from 2(3) have v: "v \<in> set (map fst seen)" by simp
  have ok: "tree_ok ?seen"
  proof (cases ?new)
    case True
    from tree_ok.child[OF 2(2) True v] True show ?thesis by simp
  next
    case False
    with 2(2) show ?thesis by simp
  qed
  have win: "w \<in> set (map fst ?seen)" by auto
  show ?case
  proof (cases "w \<in> set (map fst other)")
    case True
    with ok win show ?thesis by (simp add: Let_def)
  next
    case False
    have ps: "\<forall>p \<in> set ps. fst p \<in> set (map fst ?seen)" using 2(3) by auto
    have fr: "set ?fr \<subseteq> set (map fst ?seen)" using 2(4) by auto
    from 2(1)[OF refl refl refl False ok ps fr] False show ?thesis
      by (simp add: Let_def)
  qed
qed

lemma level_pairs_fst: "p \<in> set (level_pairs nbrs level) \<Longrightarrow> fst p \<in> set level"
  by (auto simp: level_pairs_def)

lemma bfs_loop_trees:
  "tree_ok pred \<Longrightarrow> tree_ok succ \<Longrightarrow> set ff \<subseteq> set (map fst pred) \<Longrightarrow>
   set rf \<subseteq> set (map fst succ) \<Longrightarrow> bfs_loop g pred succ ff rf = Inr (pred', succ', w) \<Longrightarrow>
   tree_ok pred' \<and> tree_ok succ' \<and> w \<in> set (map fst pred') \<and> w \<in> set (map fst succ')"
proof (induction g pred succ ff rf rule: bfs_loop.induct)
  case (1 g pred succ ff rf)
  from "1.prems"(5) have ne: "ff \<noteq> [] \<and> rf \<noteq> []"
    by (subst (asm) bfs_loop.simps) (auto split: if_splits)
  show ?case
  proof (cases "length ff \<le> length rf")
    case True
    have pairs: "\<forall>p \<in> set (level_pairs (succ_nodes g) ff). fst p \<in> set (map fst pred)"
      using "1.prems"(3) level_pairs_fst by blast
    have e: "set ([]::string list) \<subseteq> set (map fst pred)" by simp
    note lvl = expand_level_tree_ok[OF "1.prems"(1) pairs e, of succ]
    show ?thesis
    proof (cases "expand_level (level_pairs (succ_nodes g) ff) pred succ []")
      case (Inl a)
      obtain p' x where a: "a = (p', x)" by (cases a)
      from "1.prems"(5) ne True Inl a have "pred' = p'" "succ' = succ" "w = x"
        by (subst (asm) bfs_loop.simps, simp)+
      with lvl Inl a "1.prems"(2) show ?thesis by simp
    next
      case (Inr b)
      obtain p' f' where b: "b = (p', f')" by (cases b)
      from lvl Inr b have ok: "tree_ok p'" and fr: "set f' \<subseteq> set (map fst p')" by simp_all
      from "1.prems"(5) ne True Inr b have "bfs_loop g p' succ f' rf = Inr (pred', succ', w)"
        by (subst (asm) bfs_loop.simps) simp
      from "1.IH"(1)[OF ne True Inr b[symmetric] ok "1.prems"(2) fr "1.prems"(4) this]
      show ?thesis .
    qed
  next
    case False
    have pairs: "\<forall>p \<in> set (level_pairs (pred_nodes g) rf). fst p \<in> set (map fst succ)"
      using "1.prems"(4) level_pairs_fst by blast
    have e: "set ([]::string list) \<subseteq> set (map fst succ)" by simp
    note lvl = expand_level_tree_ok[OF "1.prems"(2) pairs e, of pred]
    show ?thesis
    proof (cases "expand_level (level_pairs (pred_nodes g) rf) succ pred []")
      case (Inl a)
      obtain s' x where a: "a = (s', x)" by (cases a)
      from "1.prems"(5) ne False Inl a have "pred' = pred" "succ' = s'" "w = x"
        by (subst (asm) bfs_loop.simps, simp)+
      with lvl Inl a "1.prems"(1) show ?thesis by simp
    next
      case (Inr b)
      obtain s' f' where b: "b = (s', f')" by (cases b)
      from lvl Inr b have ok: "tree_ok s'" and fr: "set f' \<subseteq> set (map fst s')" by simp_all
      from "1.prems"(5) ne False Inr b have "bfs_loop g pred s' ff f' = Inr (pred', succ', w)"
        by (subst (asm) bfs_loop.simps) simp
      from "1.IH"(2)[OF ne False Inr b[symmetric] "1.prems"(1) ok "1.prems"(3) fr this]
      show ?thesis .
    qed
  qed
qed

lemma tree_ok_single: "tree_ok [(x, None)]"
  using tree_ok.root[OF tree_ok.empty, of x] by simp

lemma bidirectional_trees:
  assumes "bidirectional_pred_succ g source target = Inr (pred, succ, w)"
  shows "tree_ok pred \<and> tree_ok succ \<and> w \<in> set (map fst pred) \<and> w \<in> set (map fst succ)"
proof (cases "target = source")
  case True
  with assms show ?thesis
    by (auto simp: bidirectional_pred_succ_def tree_ok_single)
next
  case False
  with assms have "bfs_loop g [(source, None)] [(target, None)] [source] [target]
      = Inr (pred, succ, w)"
    by (simp add: bidirectional_pred_succ_def)
  from bfs_loop_trees[OF tree_ok_single tree_ok_single _ _ this] show ?thesis by simp
qed

lemma follow_None: "follow d None path = Some (Inr path)"
  by (subst follow.simps) simp

lemma shortest_path_returns: "\<exists>r. shortest_path g source target = Some r"
proof (cases "\<not> has_node g source \<or> \<not> has_node g target")
  case True
  then show ?thesis by (auto simp add: shortest_path_def)
next
  case False
  show ?thesis
  proof (cases "bidirectional_pred_succ g source target")
    case (Inl e)
    with False show ?thesis by (simp add: shortest_path_def)
  next
    case (Inr t)
    obtain pred succ w where t: "t = (pred, succ, w)" by (cases t)
    from bidirectional_trees[OF Inr[unfolded t]]
    have ok: "tree_ok pred" "tree_ok succ" and w: "w \<in> set (map fst pred)" "w \<in> set (map fst succ)"
      by simp_all
    from follow_returns[OF ok(1) w(1), of "[]" "[]"]
    obtain p where p: "follow pred (Some w) [] = Some (Inr (w # p))" by auto
    have r: "rev (w # p) = hd (rev (w # p)) # tl (rev (w # p))" by simp
    have l: "last (hd (rev (w # p)) # tl (rev (w # p))) = w"
      unfolding r[symmetric] by simp
    from w(2) obtain par where par: "map_of succ w = Some par"
      by (metis map_of_eq_None_iff not_Some_eq set_map)
    have "\<exists>r. follow succ par (rev (w # p)) = Some r"
    proof (cases par)
      case None
      then show ?thesis by (simp add: follow_None)
    next
      case (Some x)
      with par ok(2) have "x \<in> set (map fst succ)" by (auto dest: tree_ok_parent)
      from follow_returns[OF ok(2) this, of "[]" "rev (w # p)"] Some show ?thesis by auto
    qed
    then obtain r' where r': "follow succ par (rev (w # p)) = Some r'" by blast
    have c: "(case rev (w # p) of [] \<Rightarrow> Some (Inl IndexError)
              | q # qs \<Rightarrow> (case map_of succ (last (q # qs)) of None \<Rightarrow> Some (Inl KeyError)
                           | Some w' \<Rightarrow> follow succ w' (q # qs))) = Some r'"
      by (subst r, simp only: list.case l par option.case, simp only: r[symmetric] r')
    show ?thesis
      using False unfolding shortest_path_def Inr t
      by (simp only: if_False sum.case prod.case p option.case c) blast
  qed
qed

lemma find_path_returns: "\<exists>r. find_path g a b = Some r"
proof -
  from shortest_path_returns obtain r where "shortest_path g a b = Some r" by blast
  then show ?thesis
    by (auto simp: find_path_def split: sum.splits error.splits)
qed

lemma collect_paths_returns: "\<exists>r. collect_paths g ps = Some r"
proof (induction ps)
  case Nil
  show ?case by simp
next
  case (Cons p ps)
  obtain c o' where p: "p = (c, o')" by (cases p)
  from find_path_returns obtain r where r: "find_path g c o' = Some r" by blast
  from Cons obtain r' where "collect_paths g ps = Some r'" by blast
  with r show ?case
    by (auto simp: p split: sum.splits)
qed

lemma slow_thinking_returns:
  "\<exists>result. slow_thinking ms now question
     = Some (result, ms\<lparr>thinking_log := thinking_log ms
               @ [\<lparr>log_question = question, log_timestamp = now,
                   log_mode = ''deep_thinking''\<rparr>]\<rparr>)"
proof -
  let ?ms = "ms\<lparr>thinking_log := thinking_log ms
               @ [\<lparr>log_question = question, log_timestamp = now,
                   log_mode = ''deep_thinking''\<rparr>]\<rparr>"
  from collect_paths_returns
  obtain r where "collect_paths (kb ?ms)
      (later_pairs (relevant_concepts (kb ?ms) (extract_keywords question))) = Some r"
    by blast
  then show ?thesis
    by (cases r) (auto simp: slow_thinking_def Let_def)
qed

section \<open>Properties of the thinking space\<close>

lemma fast_thinking_no_match:
  "relevant_concepts (kb ms) (extract_keywords question) = [] \<Longrightarrow>
   fast_thinking ms question = (''I don't know yet.'', 0)"
  by (simp add: fast_thinking_def)

lemma slow_thinking_no_match:
  "relevant_concepts (kb ms) (extract_keywords question) = [] \<Longrightarrow>
   slow_thinking ms now question
     = Some (Inr (generate_learning_request question),
             ms\<lparr>thinking_log := thinking_log ms
                  @ [\<lparr>log_question = question, log_timestamp = now,
                      log_mode = ''deep_thinking''\<rparr>]\<rparr>)"
  by (simp add: slow_thinking_def)

text \<open>
  C1, as the code has it. For a question whose keywords match no concept the fast path
  gives the message \<open>I don't know yet.\<close> at confidence 0. \<open>process_question\<close> returns
  that message only under a negative threshold. Under a threshold that is not negative
  (the default 0.7 and every value \<open>set_confidence_threshold\<close> accepts) the confidence 0
  does not exceed it: \<open>process_question\<close> goes on to the slow path, which logs the
  question and returns the request to be taught.
\<close>

theorem no_match_answers:
  assumes "relevant_concepts (kb ms) (extract_keywords question) = []"
  shows "fast_thinking ms question = (''I don't know yet.'', 0)
       \<and> (confidence_threshold ms < 0 \<longrightarrow>
            process_question ms now question
              = Some ([nl @ question_sign @ '' Question: '' @ question, rule60,
                       dash_sign @ '' Fast answer (confidence: '' @ fmt2f 0 @ '')''],
                      Inr ''I don't know yet.'', ms))
       \<and> (0 \<le> confidence_threshold ms \<longrightarrow>
            process_question ms now question
              = Some ([nl @ question_sign @ '' Question: '' @ question, rule60,
                       thinking_sign @ '' Low confidence ('' @ fmt2f 0
                         @ ''). Entering deep thinking mode...''],
                      Inr (generate_learning_request question),
                      ms\<lparr>thinking_log := thinking_log ms
                           @ [\<lparr>log_question = question, log_timestamp = now,
                               log_mode = ''deep_thinking''\<rparr>]\<rparr>))"
  using assms
  by (simp add: process_question_def fast_thinking_no_match slow_thinking_no_match)

text \<open>
  The theorem at work: a fresh thinking space over the empty graph, with the default
  threshold, asked \<open>What is democracy?\<close>.
\<close>

theorem no_match_answers_witness:
  "relevant_concepts (kb (new_metacognition (empty_graph :: rat digraph)
        default_confidence_threshold)) (extract_keywords ''What is democracy?'') = []
   \<and> 0 \<le> confidence_threshold (new_metacognition (empty_graph :: rat digraph)
        default_confidence_threshold)
   \<and> fast_thinking (new_metacognition (empty_graph :: rat digraph) default_confidence_threshold)
        ''What is democracy?'' = (''I don't know yet.'', 0)
   \<and> process_question (new_metacognition (empty_graph :: rat digraph)
        default_confidence_threshold) ''2024-01-03T09:00:00'' ''What is democracy?''
       = Some ([nl @ question_sign @ '' Question: What is democracy?'', rule60,
                thinking_sign @ '' Low confidence (0.00). Entering deep thinking mode...''],
               Inr (generate_learning_request ''What is democracy?''),
               \<lparr>kb = empty_graph, confidence_threshold = 7 / 10,
                thinking_log = [\<lparr>log_question = ''What is democracy?'',
                                 log_timestamp = ''2024-01-03T09:00:00'',
                                 log_mode = ''deep_thinking''\<rparr>]\<rparr>)"
proof -
  let ?ms = "new_metacognition (empty_graph :: rat digraph) default_confidence_threshold"
  have h: "relevant_concepts (kb ?ms) (extract_keywords ''What is democracy?'') = []"
    by (simp add: new_metacognition_def empty_graph_def relevant_concepts_def)
  have t: "0 \<le> confidence_threshold ?ms"
    by (simp add: new_metacognition_def default_confidence_threshold_def)
  have f: "fmt2f 0 = ''0.00''"
    by code_simp
  from no_match_answers[OF h, of "''2024-01-03T09:00:00''"] t
  have "fast_thinking ?ms ''What is democracy?'' = (''I don't know yet.'', 0)"
    and "process_question ?ms ''2024-01-03T09:00:00'' ''What is democracy?''
       = Some ([nl @ question_sign @ '' Question: '' @ ''What is democracy?'', rule60,
                thinking_sign @ '' Low confidence ('' @ fmt2f 0
                  @ ''). Entering deep thinking mode...''],
               Inr (generate_learning_request ''What is democracy?''),
               ?ms\<lparr>thinking_log := thinking_log ?ms
                     @ [\<lparr>log_question = ''What is democracy?'',
                         log_timestamp = ''2024-01-03T09:00:00'',
                         log_mode = ''deep_thinking''\<rparr>]\<rparr>)"
    by blast+
  with h t show ?thesis
    by (simp add: f new_metacognition_def default_confidence_threshold_def)
qed

text \<open>
  C1 as the specification words it fails there: on a fresh graph with no concepts and the
  default threshold, \<open>process_question\<close> does not return \<open>I don't know yet.\<close> but the
  request to be taught.
\<close>

theorem no_match_counterexample:
  "process_question (new_metacognition (empty_graph :: rat digraph) default_confidence_threshold)
       ''2024-01-03T09:00:00'' ''What is democracy?''
     = Some ([nl @ question_sign @ '' Question: What is democracy?'', rule60,
              thinking_sign @ '' Low confidence (0.00). Entering deep thinking mode...''],
             Inr (''I need more knowledge to answer: '' @ apostrophe @ ''What is democracy?''
                  @ apostrophe @ nl @ nl
                  @ ''Can you teach me the relevant concepts? Use:'' @ nl
                  @ ''  kb.add_concept(name, type, definition)'' @ nl
                  @ ''  kb.connect_concepts(concept1, concept2, relationship)''),
             \<lparr>kb = empty_graph, confidence_threshold = 7 / 10,
              thinking_log = [\<lparr>log_question = ''What is democracy?'',
                               log_timestamp = ''2024-01-03T09:00:00'',
                               log_mode = ''deep_thinking''\<rparr>]\<rparr>)
   \<and> ''I need more knowledge to answer: '' @ apostrophe @ ''What is democracy?''
        @ apostrophe @ nl @ nl
        @ ''Can you teach me the relevant concepts? Use:'' @ nl
        @ ''  kb.add_concept(name, type, definition)'' @ nl
        @ ''  kb.connect_concepts(concept1, concept2, relationship)''
     \<noteq> ''I don't know yet.''"
proof -
  have f: "fmt2f 0 = ''0.00''"
    by code_simp
  show ?thesis
    by (simp add: process_question_def fast_thinking_def slow_thinking_def
        relevant_concepts_def new_metacognition_def empty_graph_def
        default_confidence_threshold_def generate_learning_request_def f)
qed

text \<open>
  C3, as the code has it. \<open>_slow_thinking\<close> appends the log entry before it looks for
  relevant concepts. So whenever \<open>process_question\<close> enters the slow path, the call ends
  (with an answer or an exception) and leaves the thinking space with exactly one more
  entry (the question, the time, \<open>deep_thinking\<close>); and when no concept is relevant it
  returns the request to be taught, with that entry appended all the same.
\<close>

theorem slow_path_always_logs:
  assumes "\<not> confidence_threshold ms < snd (fast_thinking ms question)"
  shows "(\<exists>result.
            process_question ms now question
              = Some ([nl @ question_sign @ '' Question: '' @ question, rule60,
                       thinking_sign @ '' Low confidence (''
                         @ fmt2f (snd (fast_thinking ms question))
                         @ ''). Entering deep thinking mode...''],
                      result,
                      ms\<lparr>thinking_log := thinking_log ms
                           @ [\<lparr>log_question = question, log_timestamp = now,
                               log_mode = ''deep_thinking''\<rparr>]\<rparr>))
       \<and> (relevant_concepts (kb ms) (extract_keywords question) = [] \<longrightarrow>
            process_question ms now question
              = Some ([nl @ question_sign @ '' Question: '' @ question, rule60,
                       thinking_sign @ '' Low confidence ('' @ fmt2f 0
                         @ ''). Entering deep thinking mode...''],
                      Inr (generate_learning_request question),
                      ms\<lparr>thinking_log := thinking_log ms
                           @ [\<lparr>log_question = question, log_timestamp = now,
                               log_mode = ''deep_thinking''\<rparr>]\<rparr>))"
proof (intro conjI impI)
  from slow_thinking_returns[of ms now question]
  obtain result where "slow_thinking ms now question
     = Some (result, ms\<lparr>thinking_log := thinking_log ms
               @ [\<lparr>log_question = question, log_timestamp = now,
                   log_mode = ''deep_thinking''\<rparr>]\<rparr>)"
    by blast
  with assms show "\<exists>result.
            process_question ms now question
              = Some ([nl @ question_sign @ '' Question: '' @ question, rule60,
                       thinking_sign @ '' Low confidence (''
                         @ fmt2f (snd (fast_thinking ms question))
                         @ ''). Entering deep thinking mode...''],
                      result,
                      ms\<lparr>thinking_log := thinking_log ms
                           @ [\<lparr>log_question = question, log_timestamp = now,
                               log_mode = ''deep_thinking''\<rparr>]\<rparr>)"
    by (simp add: process_question_def split_beta)
next
  assume "relevant_concepts (kb ms) (extract_keywords question) = []"
  with assms show "process_question ms now question
              = Some ([nl @ question_sign @ '' Question: '' @ question, rule60,
                       thinking_sign @ '' Low confidence ('' @ fmt2f 0
                         @ ''). Entering deep thinking mode...''],
                      Inr (generate_learning_request question),
                      ms\<lparr>thinking_log := thinking_log ms
                           @ [\<lparr>log_question = question, log_timestamp = now,
                               log_mode = ''deep_thinking''\<rparr>]\<rparr>)"
    by (simp add: process_question_def fast_thinking_no_match slow_thinking_no_match)
qed

text \<open>
  The theorem at work: the thinking space over the graph with \<open>Democracy\<close> alone, asked
  \<open>What is justice?\<close>, which matches no concept.
\<close>

theorem slow_path_always_logs_witness:
  "\<not> confidence_threshold (new_metacognition democracy_graph default_confidence_threshold)
       < snd (fast_thinking (new_metacognition democracy_graph default_confidence_threshold)
                ''What is justice?'')
   \<and> relevant_concepts (kb (new_metacognition democracy_graph default_confidence_threshold))
        (extract_keywords ''What is justice?'') = []
   \<and> process_question (new_metacognition democracy_graph default_confidence_threshold)
        ''2024-01-03T09:00:00'' ''What is justice?''
       = Some ([nl @ question_sign @ '' Question: What is justice?'', rule60,
                thinking_sign @ '' Low confidence ('' @ fmt2f 0
                  @ ''). Entering deep thinking mode...''],
               Inr (generate_learning_request ''What is justice?''),
               \<lparr>kb = democracy_graph, confidence_threshold = 7 / 10,
                thinking_log = [\<lparr>log_question = ''What is justice?'',
                                 log_timestamp = ''2024-01-03T09:00:00'',
                                 log_mode = ''deep_thinking''\<rparr>]\<rparr>)"
proof -
  let ?ms = "new_metacognition democracy_graph default_confidence_threshold"
  have r: "relevant_concepts (kb ?ms) (extract_keywords ''What is justice?'') = []"
    by code_simp
  have ft: "fast_thinking ?ms ''What is justice?'' = (''I don't know yet.'', 0)"
    using r by (rule fast_thinking_no_match)
  have h: "\<not> confidence_threshold ?ms < snd (fast_thinking ?ms ''What is justice?'')"
    unfolding ft by (simp add: new_metacognition_def default_confidence_threshold_def)
  from slow_path_always_logs[OF h, of "''2024-01-03T09:00:00''"] r
  have "process_question ?ms ''2024-01-03T09:00:00'' ''What is justice?''
       = Some ([nl @ question_sign @ '' Question: '' @ ''What is justice?'', rule60,
                thinking_sign @ '' Low confidence ('' @ fmt2f 0
                  @ ''). Entering deep thinking mode...''],
               Inr (generate_learning_request ''What is justice?''),
               ?ms\<lparr>thinking_log := thinking_log ?ms
                     @ [\<lparr>log_question = ''What is justice?'',
                         log_timestamp = ''2024-01-03T09:00:00'',
                         log_mode = ''deep_thinking''\<rparr>]\<rparr>)"
    by blast
  with h r show ?thesis
    by (simp add: new_metacognition_def default_confidence_threshold_def)
qed

text \<open>
  C3 as the specification words it (no log entry when no concept is relevant) fails
  there: the slow path finds no relevant concept, returns the request to be taught, and
  the log, empty before, holds the entry for the question.
\<close>

theorem slow_path_log_counterexample:
  "relevant_concepts democracy_graph (extract_keywords ''What is justice?'') = []
   \<and> thinking_log (new_metacognition democracy_graph default_confidence_threshold) = []
   \<and> slow_thinking (new_metacognition democracy_graph default_confidence_threshold)
        ''2024-01-03T09:00:00'' ''What is justice?''
       = Some (Inr (generate_learning_request ''What is justice?''),
               \<lparr>kb = democracy_graph, confidence_threshold = 7 / 10,
                thinking_log = [\<lparr>log_question = ''What is justice?'',
                                 log_timestamp = ''2024-01-03T09:00:00'',
                                 log_mode = ''deep_thinking''\<rparr>]\<rparr>)
   \<and> process_question (new_metacognition democracy_graph default_confidence_threshold)
        ''2024-01-03T09:00:00'' ''What is justice?''
       = Some ([nl @ question_sign @ '' Question: What is justice?'', rule60,
                thinking_sign @ '' Low confidence ('' @ fmt2f 0
                  @ ''). Entering deep thinking mode...''],
               Inr (generate_learning_request ''What is justice?''),
               \<lparr>kb = democracy_graph, confidence_threshold = 7 / 10,
                thinking_log = [\<lparr>log_question = ''What is justice?'',
                                 log_timestamp = ''2024-01-03T09:00:00'',
                                 log_mode = ''deep_thinking''\<rparr>]\<rparr>)"
proof -
  have r: "relevant_concepts democracy_graph (extract_keywords ''What is justice?'') = []"
    by code_simp
  show ?thesis
    by (simp add: r process_question_def fast_thinking_def slow_thinking_def
        new_metacognition_def default_confidence_threshold_def)
qed

text \<open>
  C4. For a question whose keywords match exactly one concept, the fast path gives that
  concept's explanation at confidence 0.8; 0.8 exceeds the default threshold 0.7, so
  under that threshold \<open>process_question\<close> returns the explanation and leaves the
  thinking space, its log included, as it was.
\<close>

theorem one_match_fast_answer:
  assumes "relevant_concepts (kb ms) (extract_keywords question) = [c]"
    and "confidence_threshold ms = default_confidence_threshold"
  shows "fast_thinking ms question = (explain_concept (kb ms) c, 8 / 10)
       \<and> default_confidence_threshold < 8 / 10
       \<and> process_question ms now question
           = Some ([nl @ question_sign @ '' Question: '' @ question, rule60,
                    dash_sign @ '' Fast answer (confidence: '' @ fmt2f (8 / 10) @ '')''],
                   Inr (explain_concept (kb ms) c), ms)"
  using assms
  by (simp add: process_question_def fast_thinking_def default_confidence_threshold_def)

text \<open>
  The theorem at work: the graph with the one concept \<open>Democracy\<close>, asked
  \<open>What is democracy?\<close>.
\<close>

theorem one_match_fast_answer_witness:
  "relevant_concepts (kb (new_metacognition democracy_graph default_confidence_threshold))
        (extract_keywords ''What is democracy?'') = [''Democracy'']
   \<and> confidence_threshold (new_metacognition democracy_graph default_confidence_threshold)
       = default_confidence_threshold
   \<and> explain_concept democracy_graph ''Democracy''
       = nl @ rule50 @ nl @ book_sign @ '' Democracy'' @ nl @ rule50 @ nl @ nl
         @ ''Definition: Government by the people'' @ nl @ nl
   \<and> process_question (new_metacognition democracy_graph default_confidence_threshold)
        ''2024-01-03T09:00:00'' ''What is democracy?''
       = Some ([nl @ question_sign @ '' Question: What is democracy?'', rule60,
                dash_sign @ '' Fast answer (confidence: '' @ fmt2f (8 / 10) @ '')''],
               Inr (explain_concept democracy_graph ''Democracy''),
               \<lparr>kb = democracy_graph, confidence_threshold = 7 / 10, thinking_log = []\<rparr>)"
proof -
  let ?ms = "new_metacognition democracy_graph default_confidence_threshold"
  have r: "relevant_concepts (kb ?ms) (extract_keywords ''What is democracy?'') = [''Democracy'']"
    by code_simp
  have t: "confidence_threshold ?ms = default_confidence_threshold"
    by (simp add: new_metacognition_def)
  have e: "explain_concept democracy_graph ''Democracy''
       = nl @ rule50 @ nl @ book_sign @ '' Democracy'' @ nl @ rule50 @ nl @ nl
         @ ''Definition: Government by the people'' @ nl @ nl"
    by code_simp
  from one_match_fast_answer[OF r t, of "''2024-01-03T09:00:00''"]
  have "process_question ?ms ''2024-01-03T09:00:00'' ''What is democracy?''
           = Some ([nl @ question_sign @ '' Question: '' @ ''What is democracy?'', rule60,
                    dash_sign @ '' Fast answer (confidence: '' @ fmt2f (8 / 10) @ '')''],
                   Inr (explain_concept (kb ?ms) ''Democracy''), ?ms)"
    by blast
  then have "process_question ?ms ''2024-01-03T09:00:00'' ''What is democracy?''
       = Some ([nl @ question_sign @ '' Question: What is democracy?'', rule60,
                dash_sign @ '' Fast answer (confidence: '' @ fmt2f (8 / 10) @ '')''],
               Inr (explain_concept democracy_graph ''Democracy''),
               \<lparr>kb = democracy_graph, confidence_threshold = 7 / 10, thinking_log = []\<rparr>)"
    by (simp add: new_metacognition_def default_confidence_threshold_def)
  with r t e show ?thesis
    by blast
qed

section \<open>Properties of the ideologies\<close>

text \<open>
  C6. Teaching an ideology one of whose weights lies outside [0, 1] ends with
  \<open>ValueError\<close> and leaves the framework as it was: the names listed are the same, and
  a name that was not an ideology before is not one afterwards.
\<close>

theorem teach_out_of_range_rejected:
  assumes "\<exists>v \<in> set (map snd core_values). v < 0 \<or> 1 < v"
  shows "teach_ideology fw name core_values principles description examples = (Inl ValueError, fw)
       \<and> list_ideologies (snd (teach_ideology fw name core_values principles description examples))
           = list_ideologies fw
       \<and> (name \<notin> set (list_ideologies fw) \<longrightarrow>
            name \<notin> set (list_ideologies
              (snd (teach_ideology fw name core_values principles description examples))))"
proof -
  from assms have "\<not> (\<forall>v \<in> set (map snd core_values). 0 \<le> v \<and> v \<le> 1)"
    by (auto simp: not_le)
  then show ?thesis by (simp add: teach_ideology_def)
qed

text \<open>The theorem at work: an ideology with the weight 1.5.\<close>

theorem teach_out_of_range_rejected_witness:
  "(\<exists>v \<in> set (map snd [(''efficiency'', 3 / 2 :: rat)]). v < 0 \<or> 1 < v)
   \<and> ''Technocracy'' \<notin> set (list_ideologies libertarian_framework)
   \<and> teach_ideology libertarian_framework ''Technocracy'' [(''efficiency'', 3 / 2)]
        [''Experts decide''] [] None
       = (Inl ValueError, libertarian_framework)
   \<and> list_ideologies (snd (teach_ideology libertarian_framework ''Technocracy''
        [(''efficiency'', 3 / 2)] [''Experts decide''] [] None)) = [''Libertarianism'']
   \<and> ''Technocracy'' \<notin> set (list_ideologies (snd (teach_ideology libertarian_framework
        ''Technocracy'' [(''efficiency'', 3 / 2)] [''Experts decide''] [] None)))"
proof -
  have h: "\<exists>v \<in> set (map snd [(''efficiency'', 3 / 2 :: rat)]). v < 0 \<or> 1 < v"
    by (rule bexI[where x = "3 / 2"]) simp_all
  have n: "''Technocracy'' \<notin> set (list_ideologies libertarian_framework)"
    and l: "list_ideologies libertarian_framework = [''Libertarianism'']"
    by (simp_all add: list_ideologies_def libertarian_framework_def)
  from teach_out_of_range_rejected[OF h, of libertarian_framework "''Technocracy''"
      "[''Experts decide'']" "[]" None] h n l
  show ?thesis by simp
qed

















text \<open>
  C10. \<open>teach_ideology\<close> accepts an ideology with no values and stores it. For such an
  ideology no weight exceeds a threshold, so no keyword rule returns, whatever the
  situation (those without a government or economy keyword among them):
  \<open>_generate_recommendation\<close> reaches \<open>max\<close> of no items, and
  \<open>analyze_from_perspective\<close> ends with \<open>ValueError\<close> instead of a report.
\<close>

theorem empty_values_taught_then_analysis_fails:
  "teach_ideology fw name [] principles description examples
     = (Inr (check_mark @ '' Learned ideology: '' @ name),
        AList.update name
          \<lparr>ideo_values = [], ideo_principles = principles, ideo_description = description,
           ideo_examples = (case examples of None \<Rightarrow> [] | Some xs \<Rightarrow> xs)\<rparr> fw)
   \<and> name \<in> set (list_ideologies (snd (teach_ideology fw name [] principles description
        examples)))
   \<and> generate_recommendation situation [] principles = Inl ValueError
   \<and> analyze_from_perspective (snd (teach_ideology fw name [] principles description examples))
        situation name = Inl ValueError"
proof -
  have r: "generate_recommendation situation [] principles = Inl ValueError"
    by (simp add: generate_recommendation_def government_rule_def economy_rule_def
        top_value_rule_def dict_get_def)
  show ?thesis
    by (simp add: teach_ideology_def list_ideologies_def analyze_from_perspective_def
        update_conv' r dom_update)
qed

text \<open>
  The theorem at work: an ideology with no values taught to the empty framework, and a
  situation with none of the keywords.
\<close>

theorem empty_values_taught_then_analysis_fails_witness:
  "\<not> (\<exists>word \<in> set (government_words @ economy_words).
         str_in word (lower ''A new park is planned''))
   \<and> teach_ideology [] ''Nihilism'' [] [''Nothing matters''] [] None
       = (Inr (check_mark @ '' Learned ideology: Nihilism''),
          [(''Nihilism'',
            \<lparr>ideo_values = [], ideo_principles = [''Nothing matters''],
             ideo_description = [], ideo_examples = []\<rparr>)])
   \<and> list_ideologies (snd (teach_ideology [] ''Nihilism'' [] [''Nothing matters''] [] None))
       = [''Nihilism'']
   \<and> analyze_from_perspective
        (snd (teach_ideology [] ''Nihilism'' [] [''Nothing matters''] [] None))
        ''A new park is planned'' ''Nihilism'' = Inl ValueError"
proof -
  have k: "\<not> (\<exists>word \<in> set (government_words @ economy_words).
         str_in word (lower ''A new park is planned''))"
    by code_simp
  from empty_values_taught_then_analysis_fails[of "[]" "''Nihilism''" "[''Nothing matters'']"
      "[]" None "''A new park is planned''"]
  have "teach_ideology [] ''Nihilism'' [] [''Nothing matters''] [] None
       = (Inr (check_mark @ '' Learned ideology: '' @ ''Nihilism''),
          AList.update ''Nihilism''
            \<lparr>ideo_values = [], ideo_principles = [''Nothing matters''],
             ideo_description = [], ideo_examples = (case None of None \<Rightarrow> [] | Some xs \<Rightarrow> xs)\<rparr>
            [])"
    and "analyze_from_perspective
        (snd (teach_ideology [] ''Nihilism'' [] [''Nothing matters''] [] None))
        ''A new park is planned'' ''Nihilism'' = Inl ValueError"
    by blast+
  with k show ?thesis
    by (simp add: list_ideologies_def)
qed

end
